theory Spec2Isabelle
  imports Complex_Main
begin

section \<open>Data model\<close>

text \<open>
  The program is a browser script (\<^verbatim>\<open>src/main.js\<close>) whose state lives in module-level
  variables and in a few DOM elements. An older variant of the same script
  (\<^verbatim>\<open>src/unnamed/part_000\<close>) differs in some constants and branches; its functions are
  embedded under the same names with the suffix \<^verbatim>\<open>_p000\<close>.

  JavaScript numbers are modelled as real numbers: rounding, infinities and NaN of the
  IEEE representation are not part of the model.
\<close>

subsection \<open>THREE.Vector3\<close>

text \<open>
  The vector methods the script calls. \<^verbatim>\<open>add\<close>, \<^verbatim>\<open>normalize\<close>, \<^verbatim>\<open>negate\<close> and
  \<^verbatim>\<open>length\<close> carry a \<open>V\<close> or \<open>v\<close> to keep them apart from the library's constants.
\<close>

datatype Vector3 = Vector3 (vx: real) (vy: real) (vz: real)

definition addScaledVector :: "Vector3 \<Rightarrow> Vector3 \<Rightarrow> real \<Rightarrow> Vector3" where
  "addScaledVector p v s = Vector3 (vx p + vx v * s) (vy p + vy v * s) (vz p + vz v * s)"

definition multiplyScalar :: "Vector3 \<Rightarrow> real \<Rightarrow> Vector3" where
  "multiplyScalar v s = Vector3 (vx v * s) (vy v * s) (vz v * s)"

definition addV :: "Vector3 \<Rightarrow> Vector3 \<Rightarrow> Vector3" where
  "addV p v = Vector3 (vx p + vx v) (vy p + vy v) (vz p + vz v)"

definition crossVectors :: "Vector3 \<Rightarrow> Vector3 \<Rightarrow> Vector3" where
  "crossVectors a b =
     Vector3 (vy a * vz b - vz a * vy b) (vz a * vx b - vx a * vz b) (vx a * vy b - vy a * vx b)"

definition vlength :: "Vector3 \<Rightarrow> real" where
  "vlength v = sqrt (vx v * vx v + vy v * vy v + vz v * vz v)"

definition normalizeV :: "Vector3 \<Rightarrow> Vector3" where
  \<comment> \<open>\<^verbatim>\<open>divideScalar(this.length() || 1)\<close>: a zero length is replaced by 1.\<close>
  "normalizeV v = multiplyScalar v (1 / (if vlength v = 0 then 1 else vlength v))"

definition negateV :: "Vector3 \<Rightarrow> Vector3" where
  "negateV v = Vector3 (- vx v) (- vy v) (- vz v)"

subsection \<open>Constants of the movement setup\<close>

definition moveSpeed :: real where "moveSpeed = 3"
definition scrollSensitivity :: real where "scrollSensitivity = 1 / 100"
definition touchScrollSensitivity :: real where "touchScrollSensitivity = 1 / 100"
definition scrollDamping :: real where "scrollDamping = 75 / 100"
definition minCameraX :: real where "minCameraX = - 50"
definition maxCameraX :: real where "maxCameraX = 50"
definition minCameraZ :: real where "minCameraZ = - (175 / 100)"
definition maxCameraZ :: real where "maxCameraZ = 175 / 100"

text \<open>The older variant: other sensitivity, damping and depth bounds.\<close>

definition scrollSensitivity_p000 :: real where "scrollSensitivity_p000 = 2 / 100"
definition scrollDamping_p000 :: real where "scrollDamping_p000 = 60 / 100"
definition minCameraZ_p000 :: real where "minCameraZ_p000 = - (145 / 100)"
definition maxCameraZ_p000 :: real where "maxCameraZ_p000 = 145 / 100"

definition infoPanelOffset_x :: real where "infoPanelOffset_x = 15"
definition infoPanelOffset_y :: real where "infoPanelOffset_y = - 15"

subsection \<open>Module state\<close>

text \<open>
  A \<^verbatim>\<open>video\<close> element, as far as the script reads and writes it: the \<^verbatim>\<open>paused\<close> and
  \<^verbatim>\<open>muted\<close> attributes and the \<^verbatim>\<open>src\<close> attribute. \<^verbatim>\<open>play()\<close> clears
  \<^verbatim>\<open>paused\<close>, \<^verbatim>\<open>pause()\<close> sets it.
\<close>

record video =
  paused :: bool
  muted :: bool
  src :: "string option"

definition video_play :: "video \<Rightarrow> video" where
  "video_play v = v\<lparr>paused := False\<rparr>"

definition video_pause :: "video \<Rightarrow> video" where
  "video_pause v = v\<lparr>paused := True\<rparr>"

definition video_removeSrc :: "video \<Rightarrow> video" where
  \<comment> \<open>\<^verbatim>\<open>video.removeAttribute('src')\<close>\<close>
  "video_removeSrc v = v\<lparr>src := None\<rparr>"

definition video_load :: "video \<Rightarrow> video" where
  \<comment> \<open>\<^verbatim>\<open>video.load()\<close> resets the element; a reset element is paused.\<close>
  "video_load v = v\<lparr>paused := True\<rparr>"

text \<open>
  The object returned by \<^verbatim>\<open>createCanvasVideoTexture\<close>, as far as its closure has state:
  \<open>animationFrameId\<close> is the closure variable, \<open>samplingPending\<close> the identifier of the
  \<^verbatim>\<open>updateCanvasTexture\<close> callback that the browser still holds, if any. Its video element
  is the one stored in \<^verbatim>\<open>videoElements\<close> under the same mesh name.

  A \<open>texture\<close> is the \<^verbatim>\<open>VideoTexture\<close> or \<^verbatim>\<open>CanvasTexture\<close> the script creates for a video
  plane: \<open>mapped\<close> says whether it is the \<^verbatim>\<open>map\<close> of the material of that plane in the
  scene, \<open>disposed\<close> whether \<^verbatim>\<open>dispose()\<close> has been called on it.
\<close>

record canvasTextureObject =
  animationFrameId :: "nat option"
  samplingPending :: "nat option"

record texture =
  mapped :: bool
  disposed :: bool

text \<open>
  The module-level variables and the DOM attributes the script writes. Video elements
  are identified by the mesh name under which \<^verbatim>\<open>videoElements\<close> stores them, so
  \<^verbatim>\<open>currentlyHoveredVideo\<close> holds a name. \<open>listener\<close> says whether the audio listener has been
  created; \<open>backgroundSound\<close> is \<open>None\<close> until the sound object exists and otherwise
  carries its \<^verbatim>\<open>isPlaying\<close> flag. The last fields record effects that leave no trace in a
  variable: \<open>loopStarts\<close> counts the calls of \<^verbatim>\<open>animate()\<close> made by
  \<^verbatim>\<open>startExperience\<close>, \<open>pendingFrames\<close> the callbacks registered with
  \<^verbatim>\<open>requestAnimationFrame(animate)\<close> that the browser has not yet run,
  \<open>backgroundPlays\<close> the calls of \<^verbatim>\<open>backgroundSound.play()\<close> that returned,
  \<open>playRequests\<close> lists the videos on which \<^verbatim>\<open>play()\<close> was called, and \<open>alerts\<close> the
  messages shown by \<^verbatim>\<open>alert\<close>. \<open>textures\<close> holds, under the name of each video plane, the
  texture created for it. \<open>pendingCanvasVideos\<close> holds the video elements that
  \<^verbatim>\<open>createCanvasVideoTexture\<close> has created and whose \<^verbatim>\<open>loadedmetadata\<close> event has not fired:
  until then only the closure of that listener refers to the element, and neither
  \<^verbatim>\<open>videoElements\<close> nor \<^verbatim>\<open>canvasTextureObjects\<close> has an entry for it.
\<close>

record globals =
  keyStates_W :: bool
  keyStates_A :: bool
  keyStates_S :: bool
  keyStates_D :: bool
  scrollVelocityX :: real
  isCameraLoaded :: bool
  sceneReady :: bool
  listener :: bool
  backgroundSound :: "bool option"
  audioContextResumed :: bool
  touchStartY :: real
  isTouching :: bool
  cameraPosition :: Vector3
  cameraUp :: Vector3
  videoElements :: "string \<Rightarrow> video option"
  canvasTextureObjects :: "string \<Rightarrow> canvasTextureObject option"
  pendingCanvasVideos :: "string \<Rightarrow> video option"
  textures :: "string \<Rightarrow> texture option"
  currentlyHoveredVideo :: "string option"
  currentMouseX :: real
  currentMouseY :: real
  infoPanelDisplay :: string
  infoPanelLeft :: real
  infoPanelTop :: real
  loadingOverlayHidden :: bool
  loadingProgressText :: string
  loadingProgressDisplay :: string
  audioUnlockButtonDisplay :: string
  audioUnlockButtonText :: string
  audioUnlockButtonHidden :: bool
  loopStarts :: nat
  pendingFrames :: nat
  backgroundPlays :: nat
  playRequests :: "string list"
  alerts :: "string list"

text \<open>
  What one call of \<^verbatim>\<open>animate\<close> reads from its environment: the clock's delta, the
  camera's world direction, the name of the nearest mesh hit by the pointer ray (if any),
  the size of the info panel and of the window.
\<close>

record frame =
  delta :: real
  forward :: Vector3
  hit :: "string option"
  panelWidth :: real
  panelHeight :: real
  innerWidth :: real
  innerHeight :: real

section \<open>Input listeners\<close>

definition keydown :: "string \<Rightarrow> globals \<Rightarrow> globals" where
  "keydown code s =
     (if code = ''KeyW'' then s\<lparr>keyStates_W := True\<rparr>
      else if code = ''KeyA'' then s\<lparr>keyStates_A := True\<rparr>
      else if code = ''KeyS'' then s\<lparr>keyStates_S := True\<rparr>
      else if code = ''KeyD'' then s\<lparr>keyStates_D := True\<rparr>
      else s)"

definition keyup :: "string \<Rightarrow> globals \<Rightarrow> globals" where
  "keyup code s =
     (if code = ''KeyW'' then s\<lparr>keyStates_W := False\<rparr>
      else if code = ''KeyA'' then s\<lparr>keyStates_A := False\<rparr>
      else if code = ''KeyS'' then s\<lparr>keyStates_S := False\<rparr>
      else if code = ''KeyD'' then s\<lparr>keyStates_D := False\<rparr>
      else s)"

definition wheel :: "real \<Rightarrow> globals \<Rightarrow> globals" where
  "wheel deltaY s =
     (if \<not> isCameraLoaded s \<or> \<not> sceneReady s then s
      else s\<lparr>scrollVelocityX := scrollVelocityX s + deltaY * scrollSensitivity\<rparr>)"

definition wheel_p000 :: "real \<Rightarrow> globals \<Rightarrow> globals" where
  "wheel_p000 deltaY s =
     (if \<not> isCameraLoaded s \<or> \<not> sceneReady s then s
      else s\<lparr>scrollVelocityX := scrollVelocityX s + deltaY * scrollSensitivity_p000\<rparr>)"

definition onMouseMove :: "real \<Rightarrow> real \<Rightarrow> globals \<Rightarrow> globals" where
  "onMouseMove clientX clientY s = s\<lparr>currentMouseX := clientX, currentMouseY := clientY\<rparr>"

text \<open>
  A touch event carries the list \<^verbatim>\<open>event.touches\<close>; only the \<^verbatim>\<open>clientY\<close> of each touch
  is read.
\<close>

definition onTouchStart :: "real list \<Rightarrow> globals \<Rightarrow> globals" where
  "onTouchStart touches s =
     (if \<not> isCameraLoaded s \<or> \<not> sceneReady s then s
      else (case touches of
              [y] \<Rightarrow> s\<lparr>isTouching := True, touchStartY := y\<rparr>
            | _ \<Rightarrow> s))"

definition onTouchMove :: "real list \<Rightarrow> globals \<Rightarrow> globals" where
  "onTouchMove touches s =
     (if \<not> isCameraLoaded s \<or> \<not> sceneReady s \<or> \<not> isTouching s \<or> length touches \<noteq> 1
      then s\<lparr>isTouching := (length touches = 1)\<rparr>
      else (let currentTouchY = hd touches;
                deltaY = currentTouchY - touchStartY s
            in s\<lparr>scrollVelocityX := scrollVelocityX s - deltaY * touchScrollSensitivity,
                 touchStartY := currentTouchY\<rparr>))"

definition onTouchEnd :: "real list \<Rightarrow> globals \<Rightarrow> globals" where
  "onTouchEnd touches s =
     (if isTouching s \<and> length touches = 0 then s\<lparr>isTouching := False\<rparr> else s)"

section \<open>The animation frame\<close>

subsection \<open>Video playback on hover\<close>

definition pauseVideo :: "string \<Rightarrow> globals \<Rightarrow> globals" where
  "pauseVideo n s =
     s\<lparr>videoElements := (videoElements s)(n := map_option video_pause (videoElements s n))\<rparr>"

definition playVideo :: "string \<Rightarrow> globals \<Rightarrow> globals" where
  "playVideo n s =
     s\<lparr>videoElements := (videoElements s)(n := map_option video_play (videoElements s n)),
       playRequests := playRequests s @ [n]\<rparr>"

definition intersected :: "frame \<Rightarrow> globals \<Rightarrow> string option" where
  \<comment> \<open>\<^verbatim>\<open>intersectedMeshName\<close>; \<^verbatim>\<open>intersectedVideoElement\<close> is the element stored under it.\<close>
  "intersected f s =
     (case hit f of
        None \<Rightarrow> None
      | Some n \<Rightarrow> (case videoElements s n of None \<Rightarrow> None | Some v \<Rightarrow> Some n))"

definition controlVideoPlayback :: "frame \<Rightarrow> globals \<Rightarrow> globals" where
  "controlVideoPlayback f s =
     (case intersected f s of
        Some n \<Rightarrow>
          (if currentlyHoveredVideo s \<noteq> Some n then
             (let s1 = (case currentlyHoveredVideo s of Some m \<Rightarrow> pauseVideo m s | None \<Rightarrow> s);
                  s2 = (if audioContextResumed s1 \<or> (case videoElements s1 n of Some v \<Rightarrow> muted v | None \<Rightarrow> False)
                        then playVideo n s1 else s1)
              in s2\<lparr>currentlyHoveredVideo := Some n\<rparr>)
           else s)
      | None \<Rightarrow>
          (case currentlyHoveredVideo s of
             Some m \<Rightarrow> (pauseVideo m s)\<lparr>currentlyHoveredVideo := None\<rparr>
           | None \<Rightarrow> s))"

subsection \<open>Info panel\<close>

definition panelPosition :: "real \<Rightarrow> real \<Rightarrow> real \<Rightarrow> real \<Rightarrow> real \<Rightarrow> real \<Rightarrow> real \<times> real" where
  "panelPosition mouseX mouseY pw ph iw ih =
     (let panelX = mouseX + infoPanelOffset_x;
          panelY = mouseY + infoPanelOffset_y;
          panelX = (if panelX + pw > iw then mouseX - pw - infoPanelOffset_x else panelX);
          panelY = (if panelY + ph > ih then mouseY - ph - infoPanelOffset_y else panelY)
      in (max 0 panelX, max 0 panelY))"

definition panelPosition_p000 :: "real \<Rightarrow> real \<Rightarrow> real \<Rightarrow> real \<Rightarrow> real \<Rightarrow> real \<Rightarrow> real \<times> real" where
  "panelPosition_p000 mouseX mouseY pw ph iw ih =
     (let panelX = mouseX + infoPanelOffset_x;
          panelY = mouseY + infoPanelOffset_y;
          panelX = (if panelX + pw > iw then mouseX - pw - infoPanelOffset_x else panelX);
          panelY = (if panelY + ph > ih then mouseY - ph - infoPanelOffset_y else panelY);
          panelX = (if panelX < 0 then 0 else panelX);
          panelY = (if panelY < 0 then 0 else panelY)
      in (panelX, panelY))"

definition controlInfoPanel :: "frame \<Rightarrow> string option \<Rightarrow> globals \<Rightarrow> globals" where
  \<comment> \<open>The second argument is \<^verbatim>\<open>intersectedMeshName\<close>, computed before the playback control
      ran; an empty name is falsy.\<close>
  "controlInfoPanel f name s =
     (if name \<noteq> None \<and> name \<noteq> Some [] then
        (let p = panelPosition (currentMouseX s) (currentMouseY s)
                   (panelWidth f) (panelHeight f) (innerWidth f) (innerHeight f)
         in s\<lparr>infoPanelLeft := fst p, infoPanelTop := snd p, infoPanelDisplay := ''block''\<rparr>)
      else s\<lparr>infoPanelDisplay := ''none''\<rparr>)"

definition controlInfoPanel_p000 :: "frame \<Rightarrow> string option \<Rightarrow> globals \<Rightarrow> globals" where
  "controlInfoPanel_p000 f name s =
     (if name \<noteq> None \<and> name \<noteq> Some [] then
        (let p = panelPosition_p000 (currentMouseX s) (currentMouseY s)
                   (panelWidth f) (panelHeight f) (innerWidth f) (innerHeight f)
         in s\<lparr>infoPanelLeft := fst p, infoPanelTop := snd p, infoPanelDisplay := ''block''\<rparr>)
      else s\<lparr>infoPanelDisplay := ''none''\<rparr>)"

subsection \<open>Camera movement\<close>

definition clamp :: "real \<Rightarrow> real \<Rightarrow> real \<Rightarrow> real" where
  \<comment> \<open>\<^verbatim>\<open>Math.max(lo, Math.min(hi, v))\<close>\<close>
  "clamp lo hi v = max lo (min hi v)"

definition wasdPotential :: "globals \<Rightarrow> Vector3 \<Rightarrow> Vector3 \<Rightarrow> real \<Rightarrow> Vector3" where
  \<comment> \<open>\<^verbatim>\<open>potentialPositionWASD\<close> after the four key tests\<close>
  "wasdPotential s fwd right d =
     (let p = cameraPosition s;
          p = (if keyStates_W s then addScaledVector p fwd d else p);
          p = (if keyStates_S s then addScaledVector p fwd (- d) else p);
          p = (if keyStates_A s then addScaledVector p right (- d) else p);
          p = (if keyStates_D s then addScaledVector p right d else p)
      in p)"

definition movedWASD :: "globals \<Rightarrow> bool" where
  "movedWASD s = (keyStates_W s \<or> keyStates_S s \<or> keyStates_A s \<or> keyStates_D s)"

definition wasdMovement :: "frame \<Rightarrow> Vector3 \<Rightarrow> globals \<Rightarrow> globals" where
  "wasdMovement f right s =
     (let p = wasdPotential s (forward f) right (moveSpeed * delta f)
      in if movedWASD s
         then s\<lparr>cameraPosition :=
                  Vector3 (clamp minCameraX maxCameraX (vx p)) (vy p) (clamp minCameraZ maxCameraZ (vz p))\<rparr>
         else s)"

definition potentialPositionScroll :: "frame \<Rightarrow> Vector3 \<Rightarrow> globals \<Rightarrow> Vector3" where
  "potentialPositionScroll f right s =
     (let scrollMoveStep = scrollVelocityX s * delta f;
          moveVector = multiplyScalar right scrollMoveStep
      in addV (cameraPosition s) moveVector)"

definition strictlyInside :: "Vector3 \<Rightarrow> bool" where
  "strictlyInside p =
     (vx p > minCameraX \<and> vx p < maxCameraX \<and> vz p > minCameraZ \<and> vz p < maxCameraZ)"

definition scrollMovement :: "frame \<Rightarrow> Vector3 \<Rightarrow> globals \<Rightarrow> globals" where
  "scrollMovement f right s =
     (if \<bar>scrollVelocityX s\<bar> > 1 / 10000 then
        (let p = potentialPositionScroll f right s
         in if strictlyInside p
            then (let s1 = s\<lparr>cameraPosition := p\<rparr>
                  in if \<not> isTouching s1
                     then s1\<lparr>scrollVelocityX := scrollVelocityX s1 * scrollDamping\<rparr>
                     else s1)
            else s\<lparr>cameraPosition :=
                     Vector3 (clamp minCameraX maxCameraX (vx p)) (vy (cameraPosition s))
                             (clamp minCameraZ maxCameraZ (vz p)),
                   scrollVelocityX := 0\<rparr>)
      else s\<lparr>scrollVelocityX := 0\<rparr>)"

definition cameraRight :: "Vector3 \<Rightarrow> Vector3 \<Rightarrow> Vector3" where
  \<comment> \<open>\<^verbatim>\<open>right.crossVectors(up, forward).normalize().negate()\<close>\<close>
  "cameraRight up fwd = negateV (normalizeV (crossVectors up fwd))"

definition cameraMovement :: "frame \<Rightarrow> globals \<Rightarrow> globals" where
  "cameraMovement f s =
     (if isCameraLoaded s then
        (let right = cameraRight (cameraUp s) (forward f)
         in scrollMovement f right (wasdMovement f right s))
      else s)"

definition requestAnimationFrame :: "globals \<Rightarrow> globals" where
  "requestAnimationFrame s = s\<lparr>pendingFrames := pendingFrames s + 1\<rparr>"

definition animate :: "frame \<Rightarrow> globals \<Rightarrow> globals" where
  \<comment> \<open>The star twinkling and the rendering write nothing that is read back.\<close>
  "animate f s =
     (if \<not> sceneReady s \<or> \<not> isCameraLoaded s then s
      else (let s0 = requestAnimationFrame s
            in cameraMovement f (controlInfoPanel f (intersected f s0) (controlVideoPlayback f s0))))"

text \<open>The older variant of the movement: the bounds are tested, not applied.\<close>

definition inBounds_p000 :: "Vector3 \<Rightarrow> bool" where
  "inBounds_p000 p =
     (vx p \<ge> minCameraX \<and> vx p \<le> maxCameraX \<and> vz p \<ge> minCameraZ_p000 \<and> vz p \<le> maxCameraZ_p000)"

definition clampPosition_p000 :: "Vector3 \<Rightarrow> Vector3" where
  "clampPosition_p000 p =
     Vector3 (clamp minCameraX maxCameraX (vx p)) (vy p) (clamp minCameraZ_p000 maxCameraZ_p000 (vz p))"

definition wasdMovement_p000 :: "frame \<Rightarrow> Vector3 \<Rightarrow> globals \<Rightarrow> globals" where
  "wasdMovement_p000 f right s =
     (let p = wasdPotential s (forward f) right (moveSpeed * delta f)
      in if movedWASD s
         then (if inBounds_p000 p then s\<lparr>cameraPosition := p\<rparr>
               else s\<lparr>cameraPosition := clampPosition_p000 (cameraPosition s)\<rparr>)
         else s)"

definition scrollMovement_p000 :: "frame \<Rightarrow> Vector3 \<Rightarrow> globals \<Rightarrow> globals" where
  "scrollMovement_p000 f right s =
     (if \<bar>scrollVelocityX s\<bar> > 1 / 1000 then
        (let p = potentialPositionScroll f right s;
             appliedScrollMovement = inBounds_p000 p;
             s1 = (if appliedScrollMovement
                   then s\<lparr>cameraPosition := p\<rparr>
                   else s\<lparr>cameraPosition := clampPosition_p000 (cameraPosition s),
                          scrollVelocityX := 0\<rparr>)
         in if appliedScrollMovement \<or> \<bar>scrollVelocityX s1\<bar> > 1 / 1000
            then s1\<lparr>scrollVelocityX := scrollVelocityX s1 * scrollDamping_p000\<rparr>
            else s1\<lparr>scrollVelocityX := 0\<rparr>)
      else s\<lparr>scrollVelocityX := 0\<rparr>)"

definition cameraMovement_p000 :: "frame \<Rightarrow> globals \<Rightarrow> globals" where
  "cameraMovement_p000 f s =
     (let right = cameraRight (Vector3 0 1 0) (forward f)
      in scrollMovement_p000 f right (wasdMovement_p000 f right s))"

definition animate_p000 :: "frame \<Rightarrow> globals \<Rightarrow> globals" where
  "animate_p000 f s =
     (if \<not> sceneReady s then s
      else (let s0 = requestAnimationFrame s
            in cameraMovement_p000 f
                 (controlInfoPanel_p000 f (intersected f s0) (controlVideoPlayback f s0))))"

section \<open>Readiness: the unlock button and \<^verbatim>\<open>startExperience\<close>\<close>

definition startExperience :: "frame \<Rightarrow> globals \<Rightarrow> globals" where
  \<comment> \<open>The frame is what the first call of \<^verbatim>\<open>animate\<close> reads.\<close>
  "startExperience f s =
     (if \<not> sceneReady s then
        (let s1 = s\<lparr>loadingOverlayHidden := True, sceneReady := True\<rparr>
         in if isCameraLoaded s1
            then animate f (s1\<lparr>loopStarts := loopStarts s1 + 1\<rparr>)
            else s1\<lparr>loadingOverlayHidden := False,
                    loadingProgressText := ''Error: Camera Failed'',
                    loadingProgressDisplay := ''block'',
                    audioUnlockButtonDisplay := ''none''\<rparr>)
      else s)"

definition startExperience_p000 :: "frame \<Rightarrow> globals \<Rightarrow> globals" where
  "startExperience_p000 f s =
     (if \<not> sceneReady s then
        (let s1 = s\<lparr>loadingOverlayHidden := True, sceneReady := True\<rparr>
         in if isCameraLoaded s1
            then animate_p000 f (s1\<lparr>loopStarts := loopStarts s1 + 1\<rparr>)
            else s1\<lparr>alerts := alerts s1 @ [''Error: Could not initialize camera.'']\<rparr>)
      else s)"

definition playBackgroundSound :: "bool \<Rightarrow> globals \<Rightarrow> globals" where
  \<comment> \<open>The flag says whether \<^verbatim>\<open>backgroundSound.play()\<close> throws; the exception is caught and
      logged. A call that returns sets \<^verbatim>\<open>isPlaying\<close>.\<close>
  "playBackgroundSound throws s =
     (case backgroundSound s of
        Some playing \<Rightarrow>
          (if audioContextResumed s \<and> \<not> playing
           then (if throws then s
                 else s\<lparr>backgroundSound := Some True, backgroundPlays := backgroundPlays s + 1\<rparr>)
           else s)
      | None \<Rightarrow> s)"

datatype AudioContextState = suspended | running | closed

text \<open>
  The click listener of the unlock button. With a suspended context it calls
  \<^verbatim>\<open>resume()\<close> and returns; the promise's \<^verbatim>\<open>then\<close> and \<^verbatim>\<open>catch\<close> callbacks run later,
  as events of their own (\<open>resumeThen\<close>, \<open>resumeCatch\<close>). \<open>closed\<close> stands for every state
  other than the first two.
\<close>

definition unlockClick :: "AudioContextState \<Rightarrow> bool \<Rightarrow> frame \<Rightarrow> globals \<Rightarrow> globals" where
  "unlockClick c throws f s =
     (if \<not> listener s then s\<lparr>audioUnlockButtonText := ''Error: Audio not ready''\<rparr>
      else (let s1 = (case c of
                        suspended \<Rightarrow> s
                      | running \<Rightarrow>
                          startExperience f (playBackgroundSound throws (s\<lparr>audioContextResumed := True\<rparr>))
                      | closed \<Rightarrow> startExperience f s)
            in s1\<lparr>audioUnlockButtonHidden := True\<rparr>))"

definition resumeThen :: "bool \<Rightarrow> frame \<Rightarrow> globals \<Rightarrow> globals" where
  "resumeThen throws f s =
     startExperience f (playBackgroundSound throws (s\<lparr>audioContextResumed := True\<rparr>))"

definition resumeCatch :: "frame \<Rightarrow> globals \<Rightarrow> globals" where
  "resumeCatch f s = startExperience f (s\<lparr>audioUnlockButtonText := ''Audio Error''\<rparr>)"

definition unlockClick_p000 :: "AudioContextState \<Rightarrow> bool \<Rightarrow> frame \<Rightarrow> globals \<Rightarrow> globals" where
  "unlockClick_p000 c throws f s =
     (if \<not> listener s then s\<lparr>audioUnlockButtonText := ''Error: Audio not ready''\<rparr>
      else (let s1 = (case c of
                        suspended \<Rightarrow> s
                      | running \<Rightarrow>
                          startExperience_p000 f
                            (playBackgroundSound throws (s\<lparr>audioContextResumed := True\<rparr>))
                      | closed \<Rightarrow> startExperience_p000 f s)
            in s1\<lparr>audioUnlockButtonHidden := True\<rparr>))"

definition resumeThen_p000 :: "bool \<Rightarrow> frame \<Rightarrow> globals \<Rightarrow> globals" where
  "resumeThen_p000 throws f s =
     startExperience_p000 f (playBackgroundSound throws (s\<lparr>audioContextResumed := True\<rparr>))"

definition resumeCatch_p000 :: "globals \<Rightarrow> globals" where
  \<comment> \<open>The older variant does not start the experience when \<^verbatim>\<open>resume()\<close> is rejected.\<close>
  "resumeCatch_p000 s = s\<lparr>audioUnlockButtonText := ''Audio Error''\<rparr>"

section \<open>Runs\<close>

text \<open>
  The script is driven by the browser: one event at a time, each handled to completion.
  \<open>AnimationFrame\<close> is the browser running a callback registered with
  \<^verbatim>\<open>requestAnimationFrame\<close>; it happens only while one is pending.
\<close>

datatype event =
    Keydown string
  | Keyup string
  | Wheel real
  | MouseMove real real
  | TouchStart "real list"
  | TouchMove "real list"
  | TouchEnd "real list"
  | UnlockClick AudioContextState bool frame
  | ResumeThen bool frame
  | ResumeCatch frame
  | AnimationFrame frame

fun handle :: "event \<Rightarrow> globals \<Rightarrow> globals" where
  "handle (Keydown c) s = keydown c s"
| "handle (Keyup c) s = keyup c s"
| "handle (Wheel d) s = wheel d s"
| "handle (MouseMove cx cy) s = onMouseMove cx cy s"
| "handle (TouchStart ts) s = onTouchStart ts s"
| "handle (TouchMove ts) s = onTouchMove ts s"
| "handle (TouchEnd ts) s = onTouchEnd ts s"
| "handle (UnlockClick c t f) s = unlockClick c t f s"
| "handle (ResumeThen t f) s = resumeThen t f s"
| "handle (ResumeCatch f) s = resumeCatch f s"
| "handle (AnimationFrame f) s =
     (if pendingFrames s = 0 then s else animate f (s\<lparr>pendingFrames := pendingFrames s - 1\<rparr>))"

fun run :: "event list \<Rightarrow> globals \<Rightarrow> globals" where
  "run [] s = s"
| "run (e # es) s = run es (handle e s)"

text \<open>The older variant has no touch listeners.\<close>

fun handle_p000 :: "event \<Rightarrow> globals \<Rightarrow> globals" where
  "handle_p000 (Keydown c) s = keydown c s"
| "handle_p000 (Keyup c) s = keyup c s"
| "handle_p000 (Wheel d) s = wheel_p000 d s"
| "handle_p000 (MouseMove cx cy) s = onMouseMove cx cy s"
| "handle_p000 (TouchStart ts) s = s"
| "handle_p000 (TouchMove ts) s = s"
| "handle_p000 (TouchEnd ts) s = s"
| "handle_p000 (UnlockClick c t f) s = unlockClick_p000 c t f s"
| "handle_p000 (ResumeThen t f) s = resumeThen_p000 t f s"
| "handle_p000 (ResumeCatch f) s = resumeCatch_p000 s"
| "handle_p000 (AnimationFrame f) s =
     (if pendingFrames s = 0 then s
      else animate_p000 f (s\<lparr>pendingFrames := pendingFrames s - 1\<rparr>))"

fun run_p000 :: "event list \<Rightarrow> globals \<Rightarrow> globals" where
  "run_p000 [] s = s"
| "run_p000 (e # es) s = run_p000 es (handle_p000 e s)"

text \<open>
  Which events reach their listener. The touch listeners of \<^verbatim>\<open>main.js\<close> are registered on
  the canvas. In \<^verbatim>\<open>index.html\<close> the element \<^verbatim>\<open>#loading-overlay\<close> is an absolutely positioned
  sibling of the canvas that covers the whole page above it (\<^verbatim>\<open>z-index: 100\<close>), and it
  takes the pointer events until it has the class \<^verbatim>\<open>hidden\<close>, whose rule sets
  \<^verbatim>\<open>pointer-events: none\<close>. So the browser dispatches a touch event to the canvas only
  while the overlay is hidden. The other listeners are on \<^verbatim>\<open>window\<close>, \<^verbatim>\<open>document\<close> and the
  button; \<open>dispatch\<close> hands their events to \<open>handle\<close> as they come, and \<open>runPage\<close> is a run
  of dispatched events.
\<close>

fun isCanvasTouch :: "event \<Rightarrow> bool" where
  "isCanvasTouch (TouchStart ts) = True"
| "isCanvasTouch (TouchMove ts) = True"
| "isCanvasTouch (TouchEnd ts) = True"
| "isCanvasTouch _ = False"

definition dispatch :: "event \<Rightarrow> globals \<Rightarrow> globals" where
  "dispatch e s = (if isCanvasTouch e \<and> \<not> loadingOverlayHidden s then s else handle e s)"

fun runPage :: "event list \<Rightarrow> globals \<Rightarrow> globals" where
  "runPage [] s = s"
| "runPage (e # es) s = runPage es (dispatch e s)"

section \<open>Loading the scene\<close>

text \<open>The module's variables as the script initialises them.\<close>

definition initialGlobals :: globals where
  "initialGlobals =
     \<lparr>keyStates_W = False, keyStates_A = False, keyStates_S = False, keyStates_D = False,
      scrollVelocityX = 0, isCameraLoaded = False, sceneReady = False, listener = False,
      backgroundSound = None, audioContextResumed = False, touchStartY = 0, isTouching = False,
      cameraPosition = Vector3 0 0 0, cameraUp = Vector3 0 1 0,
      videoElements = (\<lambda>n. None), canvasTextureObjects = (\<lambda>n. None),
      pendingCanvasVideos = (\<lambda>n. None), textures = (\<lambda>n. None),
      currentlyHoveredVideo = None,
      currentMouseX = 0, currentMouseY = 0,
      infoPanelDisplay = ''none'', infoPanelLeft = 0, infoPanelTop = 0,
      loadingOverlayHidden = False, loadingProgressText = [], loadingProgressDisplay = ''block'',
      audioUnlockButtonDisplay = ''none'', audioUnlockButtonText = [],
      audioUnlockButtonHidden = False,
      loopStarts = 0, pendingFrames = 0, backgroundPlays = 0, playRequests = [], alerts = []\<rparr>"

text \<open>
  The camera part of the loader's \<^verbatim>\<open>onLoad\<close> callback. The argument is the position and
  the up vector of the camera found in the file, if there is one. The imported camera's
  position is clamped; the fallback camera of \<^verbatim>\<open>main.js\<close> is placed at \<open>z = 5\<close> and not
  clamped. The older variant has no fallback.
\<close>

definition useCamera :: "(Vector3 \<times> Vector3) option \<Rightarrow> globals \<Rightarrow> globals" where
  "useCamera cam s =
     (let s1 = (case cam of
                  Some (pos, up) \<Rightarrow>
                    s\<lparr>isCameraLoaded := True,
                      cameraPosition :=
                        Vector3 (clamp minCameraX maxCameraX (vx pos)) (vy pos)
                                (clamp minCameraZ maxCameraZ (vz pos)),
                      cameraUp := up, listener := True\<rparr>
                | None \<Rightarrow> s);
          s2 = (if \<not> isCameraLoaded s1
                then s1\<lparr>cameraPosition := Vector3 0 0 5, cameraUp := Vector3 0 1 0,
                        isCameraLoaded := True, listener := True\<rparr>
                else s1)
      in if listener s2 then s2\<lparr>backgroundSound := Some False\<rparr> else s2)"

definition useCamera_p000 :: "(Vector3 \<times> Vector3) option \<Rightarrow> globals \<Rightarrow> globals" where
  "useCamera_p000 cam s =
     (let s1 = (case cam of
                  Some (pos, up) \<Rightarrow>
                    s\<lparr>isCameraLoaded := True,
                      cameraPosition := clampPosition_p000 pos,
                      cameraUp := up, listener := True\<rparr>
                | None \<Rightarrow> s)
      in if listener s1 then s1\<lparr>backgroundSound := Some False\<rparr> else s1)"

text \<open>
  A mesh named in \<^verbatim>\<open>videoPlanes\<close> gets a video element: looping, muted and paused. On the
  direct path of \<^verbatim>\<open>main.js\<close> the element is stored in \<^verbatim>\<open>videoElements\<close> at once, and a
  \<^verbatim>\<open>VideoTexture\<close> of it becomes the map of the mesh's material (of a new material if the
  mesh has none). The older variant maps the texture only on a mesh that has a material;
  it has no teardown, and nothing in it reads the texture afterwards.
\<close>

definition registerVideo :: "string \<Rightarrow> string \<Rightarrow> globals \<Rightarrow> globals" where
  "registerVideo meshName videoPath s =
     s\<lparr>videoElements := (videoElements s)(meshName \<mapsto> \<lparr>paused = True, muted = True, src = Some videoPath\<rparr>),
       textures := (textures s)(meshName \<mapsto> \<lparr>mapped = True, disposed = False\<rparr>)\<rparr>"

section \<open>Canvas-sampled textures and teardown\<close>

text \<open>
  On Safari the texture of a video plane is a canvas that \<^verbatim>\<open>updateCanvasTexture\<close> redraws
  from the video in every animation frame. \<open>createCanvasVideoTexture\<close> is the call made while
  the loaded scene is traversed: it creates the video element, with its source, and the
  canvas texture, and registers the two listeners; nothing is stored in a module variable
  yet and the mesh keeps its material. \<open>canvasTextureReady\<close> is the \<^verbatim>\<open>loadedmetadata\<close>
  listener together with the \<^verbatim>\<open>onTextureReady\<close> callback it calls: the video is played, the
  first sampling is scheduled, the element and the object are stored under the mesh name,
  the mesh gets a material with the canvas texture as its map, and the video is paused
  again. The number given to \<open>updateCanvasTexture\<close> and \<open>canvasTextureReady\<close> is the
  identifier returned by \<^verbatim>\<open>requestAnimationFrame\<close>.
\<close>

definition updateCanvasTexture :: "nat \<Rightarrow> canvasTextureObject \<Rightarrow> canvasTextureObject" where
  "updateCanvasTexture j a = a\<lparr>animationFrameId := Some j, samplingPending := Some j\<rparr>"

definition cancelAnimationFrame :: "nat \<Rightarrow> canvasTextureObject \<Rightarrow> canvasTextureObject" where
  "cancelAnimationFrame i a =
     (if samplingPending a = Some i then a\<lparr>samplingPending := None\<rparr> else a)"

definition createCanvasVideoTexture :: "string \<Rightarrow> string \<Rightarrow> globals \<Rightarrow> globals" where
  "createCanvasVideoTexture meshName videoPath s =
     s\<lparr>pendingCanvasVideos := (pendingCanvasVideos s)(meshName \<mapsto>
          \<lparr>paused = True, muted = True, src = Some videoPath\<rparr>),
       textures := (textures s)(meshName \<mapsto> \<lparr>mapped = False, disposed = False\<rparr>)\<rparr>"

definition canvasTextureReady :: "string \<Rightarrow> nat \<Rightarrow> globals \<Rightarrow> globals" where
  \<comment> \<open>The event fires on an element that \<^verbatim>\<open>createCanvasVideoTexture\<close> has created.\<close>
  "canvasTextureReady meshName j s =
     (case pendingCanvasVideos s meshName of
        None \<Rightarrow> s
      | Some v \<Rightarrow>
          s\<lparr>pendingCanvasVideos := (pendingCanvasVideos s)(meshName := None),
            videoElements := (videoElements s)(meshName \<mapsto> video_pause (video_play v)),
            canvasTextureObjects := (canvasTextureObjects s)(meshName \<mapsto>
               updateCanvasTexture j \<lparr>animationFrameId = None, samplingPending = None\<rparr>),
            textures := (textures s)(meshName :=
               map_option (\<lambda>t. t\<lparr>mapped := True\<rparr>) (textures s meshName))\<rparr>)"

definition canvasVideoError :: "canvasTextureObject \<Rightarrow> canvasTextureObject" where
  \<comment> \<open>The \<^verbatim>\<open>error\<close> listener of the video cancels the sampling and keeps the identifier.\<close>
  "canvasVideoError a =
     (case animationFrameId a of
        Some i \<Rightarrow> (if i \<noteq> 0 then cancelAnimationFrame i a else a)
      | None \<Rightarrow> a)"

definition samplingTick :: "string \<Rightarrow> nat \<Rightarrow> globals \<Rightarrow> globals" where
  \<comment> \<open>The browser runs the pending \<^verbatim>\<open>updateCanvasTexture\<close> callback of a mesh, if there is one.\<close>
  "samplingTick n j s =
     (case canvasTextureObjects s n of
        None \<Rightarrow> s
      | Some a \<Rightarrow>
          (case samplingPending a of
             None \<Rightarrow> s
           | Some i \<Rightarrow> s\<lparr>canvasTextureObjects := (canvasTextureObjects s)(n \<mapsto> updateCanvasTexture j a)\<rparr>))"

text \<open>
  \<^verbatim>\<open>dispose\<close> of the canvas texture object: the closure part, the release of the video
  element, and \<^verbatim>\<open>canvasTexture.dispose()\<close>. An identifier \<open>0\<close> is falsy.
\<close>

definition disposeClosure :: "canvasTextureObject \<Rightarrow> canvasTextureObject" where
  "disposeClosure a =
     (case animationFrameId a of
        Some i \<Rightarrow> (if i \<noteq> 0 then (cancelAnimationFrame i a)\<lparr>animationFrameId := None\<rparr> else a)
      | None \<Rightarrow> a)"

definition disposeTexture :: "texture \<Rightarrow> texture" where
  "disposeTexture t = t\<lparr>disposed := True\<rparr>"

definition releaseVideo :: "video \<Rightarrow> video" where
  \<comment> \<open>\<^verbatim>\<open>pause(); removeAttribute('src'); load()\<close>\<close>
  "releaseVideo v = video_load (video_removeSrc (video_pause v))"

definition dispose :: "string \<Rightarrow> globals \<Rightarrow> globals" where
  \<comment> \<open>\<^verbatim>\<open>canvasTextureObjects[n].dispose()\<close>; a mesh without such an object has nothing to call.\<close>
  "dispose n s =
     (case canvasTextureObjects s n of
        None \<Rightarrow> s
      | Some a \<Rightarrow>
          s\<lparr>canvasTextureObjects := (canvasTextureObjects s)(n \<mapsto> disposeClosure a),
            videoElements := (videoElements s)(n := map_option releaseVideo (videoElements s n)),
            textures := (textures s)(n := map_option disposeTexture (textures s n))\<rparr>)"

definition disposeAll :: "globals \<Rightarrow> globals" where
  \<comment> \<open>\<^verbatim>\<open>Object.values(canvasTextureObjects).forEach(obj => obj.dispose())\<close>\<close>
  "disposeAll s =
     s\<lparr>canvasTextureObjects := (\<lambda>n. map_option disposeClosure (canvasTextureObjects s n)),
       videoElements :=
         (\<lambda>n. if canvasTextureObjects s n = None then videoElements s n
              else map_option releaseVideo (videoElements s n)),
       textures :=
         (\<lambda>n. if canvasTextureObjects s n = None then textures s n
              else map_option disposeTexture (textures s n))\<rparr>"

text \<open>
  The \<^verbatim>\<open>beforeunload\<close> listener: it clears \<open>sceneReady\<close>, traverses the scene and disposes
  the map of every material it finds (\<open>disposeSceneMaps\<close>; of the textures in the model these
  are the mapped ones), calls \<^verbatim>\<open>dispose()\<close> on the objects stored in
  \<^verbatim>\<open>canvasTextureObjects\<close>, stops the background sound and releases the video elements
  stored in \<^verbatim>\<open>videoElements\<close>. The disposal of geometries, materials and the renderer has
  no counterpart in the model.
\<close>

definition disposeSceneMaps :: "globals \<Rightarrow> globals" where
  "disposeSceneMaps s =
     s\<lparr>textures :=
         (\<lambda>n. map_option (\<lambda>t. if mapped t then disposeTexture t else t) (textures s n))\<rparr>"

definition beforeunload :: "globals \<Rightarrow> globals" where
  "beforeunload s =
     (let s1 = s\<lparr>sceneReady := False\<rparr>;
          s2 = disposeSceneMaps s1;
          s3 = disposeAll s2;
          s4 = (if backgroundSound s3 = Some True then s3\<lparr>backgroundSound := Some False\<rparr> else s3)
      in s4\<lparr>videoElements := (\<lambda>n. map_option releaseVideo (videoElements s4 n))\<rparr>)"

section \<open>Predicates and sample states used in the statements\<close>

definition inBounds :: "Vector3 \<Rightarrow> bool" where
  "inBounds p =
     (minCameraX \<le> vx p \<and> vx p \<le> maxCameraX \<and> minCameraZ \<le> vz p \<and> vz p \<le> maxCameraZ)"

text \<open>
  The position the scroll step of a frame starts from (the camera position after the WASD
  step of the same frame), and the test the scroll step makes on its target.
\<close>

definition wasdPosition :: "frame \<Rightarrow> globals \<Rightarrow> Vector3" where
  "wasdPosition f s = cameraPosition (wasdMovement f (cameraRight (cameraUp s) (forward f)) s)"

definition scrollStepInside :: "frame \<Rightarrow> globals \<Rightarrow> bool" where
  "scrollStepInside f s =
     strictlyInside (addV (wasdPosition f s)
        (multiplyScalar (cameraRight (cameraUp s) (forward f)) (scrollVelocityX s * delta f)))"

text \<open>The same for the older variant, whose test is not strict.\<close>

definition wasdPosition_p000 :: "frame \<Rightarrow> globals \<Rightarrow> Vector3" where
  "wasdPosition_p000 f s =
     cameraPosition (wasdMovement_p000 f (cameraRight (Vector3 0 1 0) (forward f)) s)"

definition scrollStepInside_p000 :: "frame \<Rightarrow> globals \<Rightarrow> bool" where
  "scrollStepInside_p000 f s =
     inBounds_p000 (addV (wasdPosition_p000 f s)
        (multiplyScalar (cameraRight (Vector3 0 1 0) (forward f)) (scrollVelocityX s * delta f)))"

text \<open>Events that feed no scroll velocity, and the number of frames in a run.\<close>

fun isFrame :: "event \<Rightarrow> bool" where
  "isFrame (AnimationFrame f) = True"
| "isFrame _ = False"

fun noScrollInput :: "event \<Rightarrow> bool" where
  "noScrollInput (Keydown c) = True"
| "noScrollInput (Keyup c) = True"
| "noScrollInput (MouseMove cx cy) = True"
| "noScrollInput (AnimationFrame f) = True"
| "noScrollInput _ = False"

definition frames :: "event list \<Rightarrow> nat" where
  "frames es = length (filter isFrame es)"

definition navReady :: "globals \<Rightarrow> bool" where
  "navReady s = (isCameraLoaded s \<and> sceneReady s \<and> \<not> isTouching s)"

definition loopRunning :: "globals \<Rightarrow> bool" where
  "loopRunning s = (0 < pendingFrames s)"

text \<open>
  Sample inputs: a frame of a tenth of a second with the camera looking down the negative
  z axis and the pointer over no mesh; the state after the scene has loaded with a camera
  at a given position; the state after the unlock button has then been clicked with a
  running audio context.
\<close>

definition exampleFrame :: frame where
  "exampleFrame =
     \<lparr>delta = 1 / 10, forward = Vector3 0 0 (- 1), hit = None,
      panelWidth = 200, panelHeight = 50, innerWidth = 800, innerHeight = 600\<rparr>"

definition loadedGlobals :: "Vector3 \<Rightarrow> globals" where
  "loadedGlobals pos = useCamera (Some (pos, Vector3 0 1 0)) initialGlobals"

definition exampleReady :: globals where
  "exampleReady =
     \<lparr>keyStates_W = False, keyStates_A = False, keyStates_S = False, keyStates_D = False,
      scrollVelocityX = 0, isCameraLoaded = True, sceneReady = True, listener = True,
      backgroundSound = Some True, audioContextResumed = True, touchStartY = 0, isTouching = False,
      cameraPosition = Vector3 0 0 0, cameraUp = Vector3 0 1 0,
      videoElements = (\<lambda>n. None), canvasTextureObjects = (\<lambda>n. None),
      pendingCanvasVideos = (\<lambda>n. None), textures = (\<lambda>n. None),
      currentlyHoveredVideo = None,
      currentMouseX = 0, currentMouseY = 0,
      infoPanelDisplay = ''none'', infoPanelLeft = 0, infoPanelTop = 0,
      loadingOverlayHidden = True, loadingProgressText = [], loadingProgressDisplay = ''block'',
      audioUnlockButtonDisplay = ''none'', audioUnlockButtonText = [],
      audioUnlockButtonHidden = True,
      loopStarts = 1, pendingFrames = 1, backgroundPlays = 1, playRequests = [], alerts = []\<rparr>"

definition exampleEdge :: globals where
  "exampleEdge = exampleReady\<lparr>cameraPosition := Vector3 (499 / 10) 0 0\<rparr>"

definition exampleDrive :: "event list" where
  "exampleDrive =
     [Keydown ''KeyD'', AnimationFrame exampleFrame, Wheel 100, AnimationFrame exampleFrame]"

text \<open>
  The sample state after a wheel event of \<open>deltaY = 100\<close>, and during a one-finger drag that
  has moved up by 100 pixels.
\<close>

definition exampleScrolling :: globals where
  "exampleScrolling = exampleReady\<lparr>scrollVelocityX := 1\<rparr>"

definition exampleDragging :: globals where
  "exampleDragging = exampleReady\<lparr>scrollVelocityX := 1, touchStartY := 200, isTouching := True\<rparr>"

text \<open>
  The state \<^verbatim>\<open>startExperience\<close> leaves behind when the camera is missing, the two messages
  the unlock path shows when it cannot start, the events that end an unlock gesture with a
  call of \<^verbatim>\<open>startExperience\<close>, and the bound on pending frame callbacks.
\<close>

definition cameraFailed :: "globals \<Rightarrow> bool" where
  "cameraFailed s =
     (sceneReady s \<and> \<not> isCameraLoaded s \<and> \<not> loadingOverlayHidden s \<and>
      loadingProgressText s = ''Error: Camera Failed'' \<and> loadingProgressDisplay s = ''block'' \<and>
      audioUnlockButtonDisplay s = ''none'')"

definition fatalMessageShown :: "globals \<Rightarrow> bool" where
  "fatalMessageShown s =
     (loadingProgressText s = ''Error: Camera Failed'' \<or>
      audioUnlockButtonText s = ''Error: Audio not ready'')"


text \<open>
  Wheel, touch-start and touch-move events; the scene is ready for them when the camera is
  loaded and the experience has been started. The overlay is hidden only on a ready scene.
\<close>

fun pointerInput :: "event \<Rightarrow> bool" where
  "pointerInput (Wheel d) = True"
| "pointerInput (TouchStart ts) = True"
| "pointerInput (TouchMove ts) = True"
| "pointerInput _ = False"

definition inputReady :: "globals \<Rightarrow> bool" where
  "inputReady s = (isCameraLoaded s \<and> sceneReady s)"

definition overlayInv :: "globals \<Rightarrow> bool" where
  "overlayInv s = (loadingOverlayHidden s \<longrightarrow> inputReady s)"

text \<open>
  The unlock click followed by a one-finger drag from \<open>y = 300\<close> to \<open>y = 310\<close>; it is run
  with and without a touch-move in front of it, while the overlay is still up.
\<close>

definition exampleEarlyTouch :: "event list" where
  "exampleEarlyTouch =
     [UnlockClick running False exampleFrame, TouchStart [300], TouchMove [310]]"


definition bgPlaying :: "globals \<Rightarrow> bool" where
  "bgPlaying s = (backgroundSound s = Some True)"

definition frameInv :: "globals \<Rightarrow> bool" where
  "frameInv s = (pendingFrames s \<le> (if sceneReady s \<and> isCameraLoaded s then 1 else 0))"




text \<open>
  A video is playing when its element exists and is not paused. The playback step keeps
  every playing video equal to the hovered one.
\<close>

definition playing :: "globals \<Rightarrow> string \<Rightarrow> bool" where
  "playing s n = (case videoElements s n of Some v \<Rightarrow> \<not> paused v | None \<Rightarrow> False)"

definition hoverInv :: "globals \<Rightarrow> bool" where
  "hoverInv s = (\<forall>n. playing s n \<longrightarrow> currentlyHoveredVideo s = Some n)"

text \<open>
  Sample inputs for the hover: frames whose pointer ray hits one of the video planes, the
  ready state with two registered videos, and a state whose only video is not muted while
  the audio context has not been resumed.
\<close>

definition exampleHover :: frame where
  "exampleHover = exampleFrame\<lparr>hit := Some ''lunaMoth_webm''\<rparr>"

definition exampleHoverTiger :: frame where
  "exampleHoverTiger = exampleFrame\<lparr>hit := Some ''tigerButterfly_webm''\<rparr>"

definition exampleVideos :: globals where
  "exampleVideos =
     registerVideo ''tigerButterfly_webm'' ''assets/tigerButterfly_webm.webm''
       (registerVideo ''lunaMoth_webm'' ''assets/Luna_Moth.webm'' exampleReady)"

definition exampleLocked :: globals where
  "exampleLocked =
     exampleReady\<lparr>audioContextResumed := False,
       videoElements := (\<lambda>n. None)(''lunaMoth_webm'' \<mapsto>
          \<lparr>paused = True, muted = False, src = Some ''assets/Luna_Moth.webm''\<rparr>)\<rparr>"

text \<open>
  The identifiers of animation frame requests are positive, and the callback the browser
  holds for a canvas texture object is the one whose identifier the closure remembers.
\<close>

definition adapterInv :: "canvasTextureObject \<Rightarrow> bool" where
  "adapterInv a =
     (animationFrameId a \<noteq> Some 0 \<and>
      (samplingPending a = None \<or> samplingPending a = animationFrameId a))"

text \<open>
  Sample states: one video plane whose canvas-sampled texture has been created, the same
  after its \<^verbatim>\<open>loadedmetadata\<close> event, and one plane set up with a direct video texture.
\<close>

definition exampleCreated :: globals where
  "exampleCreated = createCanvasVideoTexture ''lunaMoth_webm'' ''assets/Luna_Moth_H.265.mov'' exampleReady"

definition exampleCanvas :: globals where
  "exampleCanvas = canvasTextureReady ''lunaMoth_webm'' 7 exampleCreated"

definition exampleDirect :: globals where
  "exampleDirect = registerVideo ''lunaMoth_webm'' ''assets/Luna_Moth.webm'' exampleReady"

section \<open>Basic facts\<close>

lemmas constants =
  moveSpeed_def scrollSensitivity_def touchScrollSensitivity_def scrollDamping_def
  minCameraX_def maxCameraX_def minCameraZ_def maxCameraZ_def
  scrollSensitivity_p000_def scrollDamping_p000_def minCameraZ_p000_def maxCameraZ_p000_def
  infoPanelOffset_x_def infoPanelOffset_y_def

lemmas model_defs =
  keydown_def keyup_def wheel_def wheel_p000_def onMouseMove_def onTouchStart_def onTouchMove_def
  onTouchEnd_def pauseVideo_def playVideo_def intersected_def controlVideoPlayback_def
  panelPosition_def controlInfoPanel_def clamp_def wasdPotential_def movedWASD_def
  wasdMovement_def potentialPositionScroll_def strictlyInside_def scrollMovement_def
  cameraMovement_def requestAnimationFrame_def animate_def startExperience_def playBackgroundSound_def unlockClick_def
  resumeThen_def resumeCatch_def useCamera_def addScaledVector_def multiplyScalar_def addV_def
  Let_def

lemma cameraRight_example [simp]:
  "cameraRight (Vector3 0 1 0) (Vector3 0 0 (- 1)) = Vector3 1 0 0"
  by (simp add: cameraRight_def crossVectors_def normalizeV_def vlength_def negateV_def
      multiplyScalar_def)

lemma exampleReady_reached:
  "run [UnlockClick running False exampleFrame] (loadedGlobals (Vector3 0 0 0)) = exampleReady"
  by (simp add: loadedGlobals_def initialGlobals_def exampleFrame_def exampleReady_def
      model_defs constants)

lemma clamp_range: "lo \<le> hi \<Longrightarrow> lo \<le> clamp lo hi v \<and> clamp lo hi v \<le> hi"
  by (simp add: clamp_def)

lemma bounds_ordered:
  "minCameraX \<le> maxCameraX" "minCameraZ \<le> maxCameraZ" "minCameraZ_p000 \<le> maxCameraZ_p000"
  by (simp_all add: constants)

text \<open>The playback and panel steps of a frame leave the navigation state alone.\<close>

lemma requestAnimationFrame_fields [simp]:
  "cameraPosition (requestAnimationFrame s) = cameraPosition s"
  "scrollVelocityX (requestAnimationFrame s) = scrollVelocityX s"
  "isTouching (requestAnimationFrame s) = isTouching s"
  "isCameraLoaded (requestAnimationFrame s) = isCameraLoaded s"
  "sceneReady (requestAnimationFrame s) = sceneReady s"
  "cameraUp (requestAnimationFrame s) = cameraUp s"
  "movedWASD (requestAnimationFrame s) = movedWASD s"
  "wasdPotential (requestAnimationFrame s) = wasdPotential s"
  by (simp_all add: requestAnimationFrame_def movedWASD_def wasdPotential_def fun_eq_iff)

lemma controlVideoPlayback_fields [simp]:
  "cameraPosition (controlVideoPlayback f s) = cameraPosition s"
  "scrollVelocityX (controlVideoPlayback f s) = scrollVelocityX s"
  "isTouching (controlVideoPlayback f s) = isTouching s"
  "isCameraLoaded (controlVideoPlayback f s) = isCameraLoaded s"
  "sceneReady (controlVideoPlayback f s) = sceneReady s"
  "cameraUp (controlVideoPlayback f s) = cameraUp s"
  "movedWASD (controlVideoPlayback f s) = movedWASD s"
  "wasdPotential (controlVideoPlayback f s) = wasdPotential s"
  by (simp_all add: movedWASD_def wasdPotential_def fun_eq_iff controlVideoPlayback_def
      pauseVideo_def playVideo_def Let_def split: option.splits)

lemma controlInfoPanel_fields [simp]:
  "cameraPosition (controlInfoPanel f n s) = cameraPosition s"
  "scrollVelocityX (controlInfoPanel f n s) = scrollVelocityX s"
  "isTouching (controlInfoPanel f n s) = isTouching s"
  "isCameraLoaded (controlInfoPanel f n s) = isCameraLoaded s"
  "sceneReady (controlInfoPanel f n s) = sceneReady s"
  "cameraUp (controlInfoPanel f n s) = cameraUp s"
  "movedWASD (controlInfoPanel f n s) = movedWASD s"
  "wasdPotential (controlInfoPanel f n s) = wasdPotential s"
  by (simp_all add: controlInfoPanel_def Let_def movedWASD_def wasdPotential_def fun_eq_iff)

lemma controlInfoPanel_p000_fields [simp]:
  "cameraPosition (controlInfoPanel_p000 f n s) = cameraPosition s"
  "scrollVelocityX (controlInfoPanel_p000 f n s) = scrollVelocityX s"
  "sceneReady (controlInfoPanel_p000 f n s) = sceneReady s"
  by (simp_all add: controlInfoPanel_p000_def Let_def)

lemma wasdMovement_fields [simp]:
  "scrollVelocityX (wasdMovement f r s) = scrollVelocityX s"
  "isTouching (wasdMovement f r s) = isTouching s"
  "isCameraLoaded (wasdMovement f r s) = isCameraLoaded s"
  "sceneReady (wasdMovement f r s) = sceneReady s"
  by (simp_all add: wasdMovement_def Let_def)

lemma input_cameraPosition [simp]:
  "cameraPosition (keydown c s) = cameraPosition s"
  "cameraPosition (keyup c s) = cameraPosition s"
  "cameraPosition (wheel d s) = cameraPosition s"
  "cameraPosition (wheel_p000 d s) = cameraPosition s"
  "cameraPosition (onMouseMove a b s) = cameraPosition s"
  "cameraPosition (onTouchStart ts s) = cameraPosition s"
  "cameraPosition (onTouchMove ts s) = cameraPosition s"
  "cameraPosition (onTouchEnd ts s) = cameraPosition s"
  "cameraPosition (playBackgroundSound t s) = cameraPosition s"
  by (simp_all add: keydown_def keyup_def wheel_def wheel_p000_def onMouseMove_def
      onTouchStart_def onTouchMove_def onTouchEnd_def playBackgroundSound_def Let_def
      split: list.splits option.splits)

section \<open>The camera stays inside its bounds\<close>

lemma inBounds_clamped:
  "inBounds (Vector3 (clamp minCameraX maxCameraX a) b (clamp minCameraZ maxCameraZ c))"
  by (simp add: inBounds_def clamp_range bounds_ordered)


lemma wasdMovement_inBounds:
  "inBounds (cameraPosition s) \<Longrightarrow> inBounds (cameraPosition (wasdMovement f r s))"
  by (simp add: wasdMovement_def Let_def inBounds_clamped)

lemma scrollMovement_inBounds:
  "inBounds (cameraPosition s) \<Longrightarrow> inBounds (cameraPosition (scrollMovement f r s))"
  by (simp add: scrollMovement_def Let_def inBounds_clamped)
     (simp add: inBounds_def strictlyInside_def)

lemma cameraMovement_inBounds:
  "inBounds (cameraPosition s) \<Longrightarrow> inBounds (cameraPosition (cameraMovement f s))"
  by (simp add: cameraMovement_def Let_def wasdMovement_inBounds scrollMovement_inBounds)

lemma animate_inBounds:
  "inBounds (cameraPosition s) \<Longrightarrow> inBounds (cameraPosition (animate f s))"
  by (simp add: animate_def Let_def cameraMovement_inBounds)

lemma startExperience_inBounds:
  "inBounds (cameraPosition s) \<Longrightarrow> inBounds (cameraPosition (startExperience f s))"
  by (simp add: startExperience_def Let_def animate_inBounds)

lemma unlockClick_inBounds:
  "inBounds (cameraPosition s) \<Longrightarrow> inBounds (cameraPosition (unlockClick c t f s))"
  by (cases c) (simp_all add: unlockClick_def Let_def startExperience_inBounds)

lemma handle_inBounds:
  "inBounds (cameraPosition s) \<Longrightarrow> inBounds (cameraPosition (handle e s))"
  by (cases e)
     (simp_all add: animate_inBounds unlockClick_inBounds resumeThen_def resumeCatch_def
        startExperience_inBounds)

lemma run_inBounds:
  "inBounds (cameraPosition s) \<Longrightarrow> inBounds (cameraPosition (run es s))"
  by (induction es arbitrary: s) (simp_all add: handle_inBounds)

text \<open>The older variant.\<close>

lemma inBounds_p000_clamped: "inBounds_p000 (clampPosition_p000 p)"
  by (simp add: inBounds_p000_def clampPosition_p000_def clamp_range bounds_ordered)

lemma useCamera_imported_inBounds:
  "inBounds (cameraPosition (useCamera (Some (pos, up)) s))"
  by (simp add: useCamera_def Let_def inBounds_clamped)

lemma useCamera_p000_imported_inBounds:
  "inBounds_p000 (cameraPosition (useCamera_p000 (Some (pos, up)) s))"
  by (simp add: useCamera_p000_def Let_def inBounds_p000_clamped)

lemma wasdMovement_p000_inBounds:
  "inBounds_p000 (cameraPosition (wasdMovement_p000 f r s)) \<or>
   cameraPosition (wasdMovement_p000 f r s) = cameraPosition s"
  by (simp add: wasdMovement_p000_def Let_def inBounds_p000_clamped)

lemma scrollMovement_p000_inBounds:
  "inBounds_p000 (cameraPosition s) \<Longrightarrow>
   inBounds_p000 (cameraPosition (scrollMovement_p000 f r s))"
  by (simp add: scrollMovement_p000_def Let_def inBounds_p000_clamped)

lemma cameraMovement_p000_inBounds:
  "inBounds_p000 (cameraPosition s) \<Longrightarrow>
   inBounds_p000 (cameraPosition (cameraMovement_p000 f s))"
  using wasdMovement_p000_inBounds [of f "cameraRight (Vector3 0 1 0) (forward f)" s]
  by (auto simp add: cameraMovement_p000_def Let_def scrollMovement_p000_inBounds)

lemma animate_p000_inBounds:
  "inBounds_p000 (cameraPosition s) \<Longrightarrow> inBounds_p000 (cameraPosition (animate_p000 f s))"
  by (simp add: animate_p000_def Let_def cameraMovement_p000_inBounds)

lemma startExperience_p000_inBounds:
  "inBounds_p000 (cameraPosition s) \<Longrightarrow>
   inBounds_p000 (cameraPosition (startExperience_p000 f s))"
  by (simp add: startExperience_p000_def Let_def animate_p000_inBounds)

lemma unlockClick_p000_inBounds:
  "inBounds_p000 (cameraPosition s) \<Longrightarrow>
   inBounds_p000 (cameraPosition (unlockClick_p000 c t f s))"
  by (cases c) (simp_all add: unlockClick_p000_def Let_def startExperience_p000_inBounds)

lemma handle_p000_inBounds:
  "inBounds_p000 (cameraPosition s) \<Longrightarrow> inBounds_p000 (cameraPosition (handle_p000 e s))"
  by (cases e)
     (simp_all add: animate_p000_inBounds unlockClick_p000_inBounds resumeThen_p000_def
        resumeCatch_p000_def startExperience_p000_inBounds)

lemma run_p000_inBounds:
  "inBounds_p000 (cameraPosition s) \<Longrightarrow> inBounds_p000 (cameraPosition (run_p000 es s))"
  by (induction es arbitrary: s) (simp_all add: handle_p000_inBounds)

text \<open>
  Claim C1. The loader clamps the position of an imported camera into the rectangle.
  Whatever events arrive afterwards (key presses and releases, wheel and touch input,
  clicks on the unlock button, frames with any delta and any camera direction), if the
  camera position is inside the rectangle \<open>minCameraX \<le> x \<le> maxCameraX\<close>,
  \<open>minCameraZ \<le> z \<le> maxCameraZ\<close> at the start, it is inside after every event of the run,
  in particular after every frame. The same holds for the older variant with its own depth
  bounds.
\<close>

theorem camera_bounds_invariant:
  "inBounds (cameraPosition (useCamera (Some (pos, up)) s0)) \<and>
   inBounds_p000 (cameraPosition (useCamera_p000 (Some (pos, up)) s0)) \<and>
   (inBounds (cameraPosition s) \<longrightarrow> (\<forall>n. inBounds (cameraPosition (run (take n es) s)))) \<and>
   (inBounds_p000 (cameraPosition s) \<longrightarrow>
      (\<forall>n. inBounds_p000 (cameraPosition (run_p000 (take n es) s))))"
  by (simp add: run_inBounds run_p000_inBounds useCamera_imported_inBounds
      useCamera_p000_imported_inBounds)

theorem camera_bounds_invariant_witness:
  "inBounds (cameraPosition exampleEdge) \<and> inBounds_p000 (cameraPosition exampleEdge) \<and>
   inBounds (cameraPosition (run (take 2 exampleDrive) exampleEdge)) \<and>
   inBounds_p000 (cameraPosition (run_p000 (take 4 exampleDrive) exampleEdge)) \<and>
   cameraPosition (run (take 2 exampleDrive) exampleEdge) = Vector3 50 0 0"
proof -
  have h: "inBounds (cameraPosition exampleEdge)" "inBounds_p000 (cameraPosition exampleEdge)"
    by (simp_all add: exampleEdge_def exampleReady_def inBounds_def inBounds_p000_def constants)
  have v: "cameraPosition (run (take 2 exampleDrive) exampleEdge) = Vector3 50 0 0"
    by (simp add: exampleDrive_def exampleEdge_def exampleFrame_def exampleReady_def
        model_defs constants)
  from h camera_bounds_invariant [where s = exampleEdge and es = exampleDrive]
  have "\<forall>n. inBounds (cameraPosition (run (take n exampleDrive) exampleEdge))"
    and "\<forall>n. inBounds_p000 (cameraPosition (run_p000 (take n exampleDrive) exampleEdge))"
    by blast+
  with h v show ?thesis by blast
qed

text \<open>
  The fallback camera that \<^verbatim>\<open>main.js\<close> creates when the file has none is not clamped: it
  starts outside the depth bounds, and stays there until a key or a scroll step moves it.
\<close>

lemma fallback_camera_outside:
  "cameraPosition (useCamera None initialGlobals) = Vector3 0 0 5 \<and>
   \<not> inBounds (cameraPosition (useCamera None initialGlobals))"
  by (simp add: useCamera_def initialGlobals_def Let_def inBounds_def constants)

section \<open>Scroll velocity\<close>

lemma exampleScrolling_reached: "run [Wheel 100] exampleReady = exampleScrolling"
  by (simp add: exampleScrolling_def exampleReady_def model_defs constants)

lemma exampleDragging_reached:
  "run [TouchStart [300], TouchMove [200]] exampleReady = exampleDragging"
  by (simp add: exampleDragging_def exampleReady_def model_defs constants)

lemma cameraPosition_wasdMovement_cong:
  "cameraPosition s' = cameraPosition s \<Longrightarrow> movedWASD s' = movedWASD s \<Longrightarrow>
   wasdPotential s' = wasdPotential s \<Longrightarrow>
   cameraPosition (wasdMovement f r s') = cameraPosition (wasdMovement f r s)"
  by (simp add: wasdMovement_def Let_def)

lemma wasdMovement_after_hover:
  "cameraPosition
     (wasdMovement f r (controlInfoPanel f n (controlVideoPlayback f (requestAnimationFrame s)))) =
   cameraPosition (wasdMovement f r s)"
  by (rule cameraPosition_wasdMovement_cong) simp_all

lemma scrollMovement_velocity:
  "scrollVelocityX (scrollMovement f r s) =
     (if \<bar>scrollVelocityX s\<bar> > 1 / 10000 \<and> strictlyInside (potentialPositionScroll f r s)
      then (if isTouching s then scrollVelocityX s else scrollVelocityX s * scrollDamping)
      else 0)"
  by (simp add: scrollMovement_def Let_def)

lemma animate_velocity:
  "isCameraLoaded s \<Longrightarrow> sceneReady s \<Longrightarrow>
   scrollVelocityX (animate f s) =
     (if \<bar>scrollVelocityX s\<bar> > 1 / 10000 \<and> scrollStepInside f s
      then (if isTouching s then scrollVelocityX s else scrollVelocityX s * scrollDamping)
      else 0)"
  by (simp add: animate_def cameraMovement_def Let_def scrollMovement_velocity
      potentialPositionScroll_def scrollStepInside_def wasdPosition_def
      wasdMovement_after_hover)

lemma scrollMovement_position_inside:
  "\<bar>scrollVelocityX s\<bar> > 1 / 10000 \<Longrightarrow> strictlyInside (potentialPositionScroll f r s) \<Longrightarrow>
   cameraPosition (scrollMovement f r s) = potentialPositionScroll f r s"
  by (simp add: scrollMovement_def Let_def)

lemma animate_position_inside:
  "isCameraLoaded s \<Longrightarrow> sceneReady s \<Longrightarrow> \<bar>scrollVelocityX s\<bar> > 1 / 10000 \<Longrightarrow>
   scrollStepInside f s \<Longrightarrow>
   cameraPosition (animate f s) =
     addV (wasdPosition f s)
       (multiplyScalar (cameraRight (cameraUp s) (forward f)) (scrollVelocityX s * delta f))"
  by (simp add: animate_def cameraMovement_def Let_def scrollMovement_position_inside
      potentialPositionScroll_def scrollStepInside_def wasdPosition_def
      wasdMovement_after_hover)

lemma wheel_fields [simp]:
  "isCameraLoaded (wheel d s) = isCameraLoaded s"
  "sceneReady (wheel d s) = sceneReady s"
  "isTouching (wheel d s) = isTouching s"
  "cameraUp (wheel d s) = cameraUp s"
  by (simp_all add: wheel_def)

lemma wasdPosition_wheel [simp]: "wasdPosition f (wheel d s) = wasdPosition f s"
  unfolding wasdPosition_def wheel_fields
  by (rule cameraPosition_wasdMovement_cong)
     (simp_all add: wheel_def movedWASD_def wasdPotential_def fun_eq_iff)

text \<open>
  Claim C8. The wheel listener multiplies \<open>deltaY\<close> by the sensitivity \<open>0.01\<close>, so a wheel
  event with \<open>deltaY = 100\<close> on a ready scene adds exactly \<open>1\<close> to the scroll velocity. If the
  velocity was \<open>0\<close> before, no touch is in progress and the scroll step of the next frame
  (delta \<open>0.1\<close>) stays strictly inside the bounds, that frame moves the camera by
  \<open>1 \<cdot> 0.1\<close> along its right vector and leaves the velocity at exactly \<open>0.75\<close>.
\<close>

theorem wheel_then_tick_scenario:
  "scrollSensitivity = 1 / 100 \<and> scrollDamping = 3 / 4 \<and>
   (isCameraLoaded s \<and> sceneReady s \<longrightarrow> scrollVelocityX (wheel 100 s) = scrollVelocityX s + 1) \<and>
   (navReady s \<and> scrollVelocityX s = 0 \<and> delta f = 1 / 10 \<and> scrollStepInside f (wheel 100 s) \<longrightarrow>
      scrollVelocityX (animate f (wheel 100 s)) = 3 / 4 \<and>
      cameraPosition (animate f (wheel 100 s)) =
        addV (wasdPosition f s) (multiplyScalar (cameraRight (cameraUp s) (forward f)) (1 / 10)))"
proof -
  have "scrollVelocityX (wheel 100 s) = scrollVelocityX s + 1" if "isCameraLoaded s" "sceneReady s"
    using that by (simp add: wheel_def scrollSensitivity_def)
  moreover have "scrollVelocityX (animate f (wheel 100 s)) = 3 / 4 \<and>
      cameraPosition (animate f (wheel 100 s)) =
        addV (wasdPosition f s) (multiplyScalar (cameraRight (cameraUp s) (forward f)) (1 / 10))"
    if r: "navReady s" and z: "scrollVelocityX s = 0" and d: "delta f = 1 / 10"
      and i: "scrollStepInside f (wheel 100 s)"
  proof -
    have v: "scrollVelocityX (wheel 100 s) = 1"
      using r z by (simp add: navReady_def wheel_def scrollSensitivity_def)
    have "scrollVelocityX (animate f (wheel 100 s)) = 3 / 4"
      using r i v by (simp add: navReady_def animate_velocity scrollDamping_def)
    moreover have "cameraPosition (animate f (wheel 100 s)) =
        addV (wasdPosition f s) (multiplyScalar (cameraRight (cameraUp s) (forward f)) (1 / 10))"
      using r i v by (simp add: navReady_def animate_position_inside d)
    ultimately show ?thesis by simp
  qed
  ultimately show ?thesis by (simp add: scrollSensitivity_def scrollDamping_def)
qed

theorem wheel_then_tick_scenario_witness:
  "isCameraLoaded exampleReady \<and> sceneReady exampleReady \<and> navReady exampleReady \<and>
   scrollVelocityX exampleReady = 0 \<and> delta exampleFrame = 1 / 10 \<and>
   scrollStepInside exampleFrame (wheel 100 exampleReady) \<and>
   scrollVelocityX (wheel 100 exampleReady) = 1 \<and>
   scrollVelocityX (animate exampleFrame (wheel 100 exampleReady)) = 3 / 4 \<and>
   cameraPosition (animate exampleFrame (wheel 100 exampleReady)) = Vector3 (1 / 10) 0 0"
proof -
  have h: "isCameraLoaded exampleReady" "sceneReady exampleReady" "navReady exampleReady"
    "scrollVelocityX exampleReady = 0" "delta exampleFrame = 1 / 10"
    by (simp_all add: exampleReady_def exampleFrame_def navReady_def)
  have i: "scrollStepInside exampleFrame (wheel 100 exampleReady)"
    by (simp add: scrollStepInside_def wasdPosition_def exampleReady_def exampleFrame_def
        model_defs constants)
  have p: "addV (wasdPosition exampleFrame exampleReady)
             (multiplyScalar (cameraRight (cameraUp exampleReady) (forward exampleFrame)) (1 / 10))
           = Vector3 (1 / 10) 0 0"
    by (simp add: wasdPosition_def exampleReady_def exampleFrame_def model_defs constants)
  from wheel_then_tick_scenario [of exampleReady exampleFrame] h i p show ?thesis by simp
qed

section \<open>Damping\<close>

text \<open>The velocity shrinks in every frame and stays zero once it is zero.\<close>

lemma pendingFrames_steps [simp]:
  "pendingFrames (controlVideoPlayback f s) = pendingFrames s"
  "pendingFrames (controlInfoPanel f n s) = pendingFrames s"
  "pendingFrames (controlInfoPanel_p000 f n s) = pendingFrames s"
  "pendingFrames (wasdMovement f r s) = pendingFrames s"
  "pendingFrames (scrollMovement f r s) = pendingFrames s"
  "pendingFrames (cameraMovement f s) = pendingFrames s"
  by (simp_all add: controlVideoPlayback_def pauseVideo_def playVideo_def controlInfoPanel_def
      controlInfoPanel_p000_def wasdMovement_def scrollMovement_def cameraMovement_def Let_def
      split: option.splits)

lemma animate_flags [simp]:
  "isCameraLoaded (animate f s) = isCameraLoaded s"
  "sceneReady (animate f s) = sceneReady s"
  "isTouching (animate f s) = isTouching s"
  by (simp_all add: animate_def cameraMovement_def Let_def scrollMovement_def)

lemma pendingFrames_animate:
  "pendingFrames (animate f s) =
     (if sceneReady s \<and> isCameraLoaded s then pendingFrames s + 1 else pendingFrames s)"
  by (simp add: animate_def Let_def) (simp add: requestAnimationFrame_def)

lemma frame_consumed_fields [simp]:
  "navReady (s\<lparr>pendingFrames := k\<rparr>) = navReady s"
  "wasdPosition f (s\<lparr>pendingFrames := k\<rparr>) = wasdPosition f s"
  "scrollStepInside f (s\<lparr>pendingFrames := k\<rparr>) = scrollStepInside f s"
  by (simp_all add: navReady_def scrollStepInside_def wasdPosition_def wasdMovement_def
      movedWASD_def wasdPotential_def Let_def)

lemma navReady_handle:
  "noScrollInput e \<Longrightarrow> navReady (handle e s) = navReady s"
  by (cases e) (simp_all add: navReady_def keydown_def keyup_def onMouseMove_def)

lemma loopRunning_handle:
  "noScrollInput e \<Longrightarrow> navReady s \<Longrightarrow> loopRunning s \<Longrightarrow> loopRunning (handle e s)"
  by (cases e)
     (simp_all add: navReady_def loopRunning_def keydown_def keyup_def onMouseMove_def
        pendingFrames_animate)

lemma velocity_quiet_nonframe:
  "noScrollInput e \<Longrightarrow> \<not> isFrame e \<Longrightarrow> scrollVelocityX (handle e s) = scrollVelocityX s"
  by (cases e) (simp_all add: keydown_def keyup_def onMouseMove_def)

lemma animate_damped:
  assumes "navReady s"
  shows "\<bar>scrollVelocityX (animate f s)\<bar> \<le> scrollDamping * \<bar>scrollVelocityX s\<bar>"
    and "\<bar>scrollVelocityX s\<bar> \<le> 1 / 10000 \<Longrightarrow> scrollVelocityX (animate f s) = 0"
  using assms by (simp_all add: navReady_def animate_velocity scrollDamping_def abs_mult)

lemma frame_damped:
  assumes "navReady s" "loopRunning s"
  shows "\<bar>scrollVelocityX (handle (AnimationFrame f) s)\<bar> \<le> scrollDamping * \<bar>scrollVelocityX s\<bar>"
    and "\<bar>scrollVelocityX s\<bar> \<le> 1 / 10000 \<Longrightarrow> scrollVelocityX (handle (AnimationFrame f) s) = 0"
  using assms animate_damped [of "s\<lparr>pendingFrames := pendingFrames s - 1\<rparr>" f]
  by (simp_all add: loopRunning_def)

lemma handle_damped:
  assumes "navReady s" "loopRunning s" "noScrollInput e"
  shows "\<bar>scrollVelocityX (handle e s)\<bar> \<le> \<bar>scrollVelocityX s\<bar>"
proof (cases "isFrame e")
  case True
  then obtain f where e: "e = AnimationFrame f" by (cases e) simp_all
  have "scrollDamping * \<bar>scrollVelocityX s\<bar> \<le> \<bar>scrollVelocityX s\<bar>"
    by (simp add: scrollDamping_def)
  with frame_damped(1) [OF assms(1,2), of f] show ?thesis unfolding e by linarith
next
  case False
  with assms show ?thesis by (simp add: velocity_quiet_nonframe)
qed

lemma run_zero_stays:
  "navReady s \<Longrightarrow> loopRunning s \<Longrightarrow> \<forall>e\<in>set es. noScrollInput e \<Longrightarrow>
   scrollVelocityX s = 0 \<Longrightarrow> scrollVelocityX (run es s) = 0"
proof (induction es arbitrary: s)
  case Nil
  then show ?case by simp
next
  case (Cons e es)
  have "\<bar>scrollVelocityX (handle e s)\<bar> \<le> \<bar>scrollVelocityX s\<bar>"
    by (rule handle_damped) (use Cons.prems in simp_all)
  also have "\<dots> = 0" using Cons.prems by simp
  finally have "scrollVelocityX (handle e s) = 0" by simp
  moreover have "navReady (handle e s)" using Cons.prems by (simp add: navReady_handle)
  moreover have "loopRunning (handle e s)" using Cons.prems by (simp add: loopRunning_handle)
  ultimately show ?case using Cons.IH Cons.prems by simp
qed

lemma run_velocity_reaches_zero:
  "navReady s \<Longrightarrow> loopRunning s \<Longrightarrow> \<forall>e\<in>set es. noScrollInput e \<Longrightarrow>
   scrollDamping ^ n * \<bar>scrollVelocityX s\<bar> \<le> 1 / 10000 \<Longrightarrow> n < frames es \<Longrightarrow>
   scrollVelocityX (run es s) = 0"
proof (induction es arbitrary: s n)
  case Nil
  then show ?case by (simp add: frames_def)
next
  case (Cons e es)
  have ready': "navReady (handle e s)" using Cons.prems by (simp add: navReady_handle)
  have loop': "loopRunning (handle e s)" using Cons.prems by (simp add: loopRunning_handle)
  have quiet': "\<forall>e\<in>set es. noScrollInput e" using Cons.prems by simp
  show ?case
  proof (cases "isFrame e")
    case False
    then have "scrollVelocityX (handle e s) = scrollVelocityX s" "n < frames es"
      using Cons.prems by (simp_all add: velocity_quiet_nonframe frames_def)
    then show ?thesis using Cons.IH [OF ready' loop' quiet', of n] Cons.prems by simp
  next
    case True
    then obtain f where e: "e = AnimationFrame f" by (cases e) simp_all
    show ?thesis
    proof (cases n)
      case 0
      then have "scrollVelocityX (handle e s) = 0"
        unfolding e using Cons.prems by (intro frame_damped(2)) simp_all
      then show ?thesis using run_zero_stays [OF ready' loop' quiet'] by simp
    next
      case (Suc m)
      have "\<bar>scrollVelocityX (handle e s)\<bar> \<le> scrollDamping * \<bar>scrollVelocityX s\<bar>"
        unfolding e using Cons.prems by (intro frame_damped(1)) simp_all
      moreover have "0 \<le> scrollDamping ^ m" by (simp add: scrollDamping_def)
      ultimately have "scrollDamping ^ m * \<bar>scrollVelocityX (handle e s)\<bar>
          \<le> scrollDamping ^ m * (scrollDamping * \<bar>scrollVelocityX s\<bar>)"
        by (rule mult_left_mono)
      also have "\<dots> = scrollDamping ^ n * \<bar>scrollVelocityX s\<bar>" by (simp add: Suc)
      finally have small: "scrollDamping ^ m * \<bar>scrollVelocityX (handle e s)\<bar> \<le> 1 / 10000"
        using Cons.prems by simp
      have "m < frames es" using Cons.prems True by (simp add: frames_def Suc)
      from Cons.IH [OF ready' loop' quiet' small this] show ?thesis by simp
    qed
  qed
qed

lemma damping_crosses_threshold:
  "\<exists>n. scrollDamping ^ n * B \<le> 1 / 10000"
proof (cases "B \<le> 0")
  case True
  then have "scrollDamping ^ 0 * B \<le> 1 / 10000" by simp
  then show ?thesis by blast
next
  case False
  then have pos: "0 < B" by simp
  then have "0 < 1 / 10000 / B" by simp
  moreover have "scrollDamping < 1" by (simp add: scrollDamping_def)
  ultimately obtain n where "scrollDamping ^ n < 1 / 10000 / B"
    using real_arch_pow_inv by blast
  then have "scrollDamping ^ n * B < 1 / 10000" using pos by (simp add: pos_less_divide_eq)
  then show ?thesis by (metis less_eq_real_def)
qed

section \<open>Readiness\<close>

text \<open>A frame writes none of the variables and attributes of the unlock path.\<close>

lemma readiness_controlVideoPlayback [simp]:
  "loopStarts (controlVideoPlayback f s) = loopStarts s"
  "backgroundPlays (controlVideoPlayback f s) = backgroundPlays s"
  "backgroundSound (controlVideoPlayback f s) = backgroundSound s"
  "audioContextResumed (controlVideoPlayback f s) = audioContextResumed s"
  "listener (controlVideoPlayback f s) = listener s"
  "loadingProgressText (controlVideoPlayback f s) = loadingProgressText s"
  "loadingOverlayHidden (controlVideoPlayback f s) = loadingOverlayHidden s"
  "loadingProgressDisplay (controlVideoPlayback f s) = loadingProgressDisplay s"
  "audioUnlockButtonDisplay (controlVideoPlayback f s) = audioUnlockButtonDisplay s"
  "audioUnlockButtonText (controlVideoPlayback f s) = audioUnlockButtonText s"
  "audioUnlockButtonHidden (controlVideoPlayback f s) = audioUnlockButtonHidden s"
  "alerts (controlVideoPlayback f s) = alerts s"
  by (simp_all add: controlVideoPlayback_def pauseVideo_def playVideo_def Let_def split: option.splits)

lemma readiness_controlInfoPanel [simp]:
  "loopStarts (controlInfoPanel f n s) = loopStarts s"
  "backgroundPlays (controlInfoPanel f n s) = backgroundPlays s"
  "backgroundSound (controlInfoPanel f n s) = backgroundSound s"
  "audioContextResumed (controlInfoPanel f n s) = audioContextResumed s"
  "listener (controlInfoPanel f n s) = listener s"
  "loadingProgressText (controlInfoPanel f n s) = loadingProgressText s"
  "loadingOverlayHidden (controlInfoPanel f n s) = loadingOverlayHidden s"
  "loadingProgressDisplay (controlInfoPanel f n s) = loadingProgressDisplay s"
  "audioUnlockButtonDisplay (controlInfoPanel f n s) = audioUnlockButtonDisplay s"
  "audioUnlockButtonText (controlInfoPanel f n s) = audioUnlockButtonText s"
  "audioUnlockButtonHidden (controlInfoPanel f n s) = audioUnlockButtonHidden s"
  "alerts (controlInfoPanel f n s) = alerts s"
  by (simp_all add: controlInfoPanel_def Let_def)

lemma readiness_controlInfoPanel_p000 [simp]:
  "loopStarts (controlInfoPanel_p000 f n s) = loopStarts s"
  "backgroundPlays (controlInfoPanel_p000 f n s) = backgroundPlays s"
  "backgroundSound (controlInfoPanel_p000 f n s) = backgroundSound s"
  "audioContextResumed (controlInfoPanel_p000 f n s) = audioContextResumed s"
  "listener (controlInfoPanel_p000 f n s) = listener s"
  "loadingProgressText (controlInfoPanel_p000 f n s) = loadingProgressText s"
  "loadingOverlayHidden (controlInfoPanel_p000 f n s) = loadingOverlayHidden s"
  "loadingProgressDisplay (controlInfoPanel_p000 f n s) = loadingProgressDisplay s"
  "audioUnlockButtonDisplay (controlInfoPanel_p000 f n s) = audioUnlockButtonDisplay s"
  "audioUnlockButtonText (controlInfoPanel_p000 f n s) = audioUnlockButtonText s"
  "audioUnlockButtonHidden (controlInfoPanel_p000 f n s) = audioUnlockButtonHidden s"
  "alerts (controlInfoPanel_p000 f n s) = alerts s"
  by (simp_all add: controlInfoPanel_p000_def Let_def)

lemma readiness_cameraMovement [simp]:
  "loopStarts (cameraMovement f s) = loopStarts s"
  "backgroundPlays (cameraMovement f s) = backgroundPlays s"
  "backgroundSound (cameraMovement f s) = backgroundSound s"
  "audioContextResumed (cameraMovement f s) = audioContextResumed s"
  "listener (cameraMovement f s) = listener s"
  "loadingProgressText (cameraMovement f s) = loadingProgressText s"
  "loadingOverlayHidden (cameraMovement f s) = loadingOverlayHidden s"
  "loadingProgressDisplay (cameraMovement f s) = loadingProgressDisplay s"
  "audioUnlockButtonDisplay (cameraMovement f s) = audioUnlockButtonDisplay s"
  "audioUnlockButtonText (cameraMovement f s) = audioUnlockButtonText s"
  "audioUnlockButtonHidden (cameraMovement f s) = audioUnlockButtonHidden s"
  "alerts (cameraMovement f s) = alerts s"
  by (simp_all add: cameraMovement_def wasdMovement_def scrollMovement_def Let_def)

lemma readiness_cameraMovement_p000 [simp]:
  "loopStarts (cameraMovement_p000 f s) = loopStarts s"
  "backgroundPlays (cameraMovement_p000 f s) = backgroundPlays s"
  "backgroundSound (cameraMovement_p000 f s) = backgroundSound s"
  "audioContextResumed (cameraMovement_p000 f s) = audioContextResumed s"
  "listener (cameraMovement_p000 f s) = listener s"
  "loadingProgressText (cameraMovement_p000 f s) = loadingProgressText s"
  "loadingOverlayHidden (cameraMovement_p000 f s) = loadingOverlayHidden s"
  "loadingProgressDisplay (cameraMovement_p000 f s) = loadingProgressDisplay s"
  "audioUnlockButtonDisplay (cameraMovement_p000 f s) = audioUnlockButtonDisplay s"
  "audioUnlockButtonText (cameraMovement_p000 f s) = audioUnlockButtonText s"
  "audioUnlockButtonHidden (cameraMovement_p000 f s) = audioUnlockButtonHidden s"
  "alerts (cameraMovement_p000 f s) = alerts s"
  by (simp_all add: cameraMovement_p000_def wasdMovement_p000_def scrollMovement_p000_def Let_def)

lemma readiness_requestAnimationFrame [simp]:
  "loopStarts (requestAnimationFrame s) = loopStarts s"
  "backgroundPlays (requestAnimationFrame s) = backgroundPlays s"
  "backgroundSound (requestAnimationFrame s) = backgroundSound s"
  "audioContextResumed (requestAnimationFrame s) = audioContextResumed s"
  "listener (requestAnimationFrame s) = listener s"
  "loadingProgressText (requestAnimationFrame s) = loadingProgressText s"
  "loadingOverlayHidden (requestAnimationFrame s) = loadingOverlayHidden s"
  "loadingProgressDisplay (requestAnimationFrame s) = loadingProgressDisplay s"
  "audioUnlockButtonDisplay (requestAnimationFrame s) = audioUnlockButtonDisplay s"
  "audioUnlockButtonText (requestAnimationFrame s) = audioUnlockButtonText s"
  "audioUnlockButtonHidden (requestAnimationFrame s) = audioUnlockButtonHidden s"
  "alerts (requestAnimationFrame s) = alerts s"
  by (simp_all add: requestAnimationFrame_def)

lemma readiness_animate [simp]:
  "loopStarts (animate f s) = loopStarts s"
  "backgroundPlays (animate f s) = backgroundPlays s"
  "backgroundSound (animate f s) = backgroundSound s"
  "audioContextResumed (animate f s) = audioContextResumed s"
  "listener (animate f s) = listener s"
  "loadingProgressText (animate f s) = loadingProgressText s"
  "loadingOverlayHidden (animate f s) = loadingOverlayHidden s"
  "loadingProgressDisplay (animate f s) = loadingProgressDisplay s"
  "audioUnlockButtonDisplay (animate f s) = audioUnlockButtonDisplay s"
  "audioUnlockButtonText (animate f s) = audioUnlockButtonText s"
  "audioUnlockButtonHidden (animate f s) = audioUnlockButtonHidden s"
  "alerts (animate f s) = alerts s"
  by (simp_all add: animate_def Let_def)

lemma readiness_animate_p000 [simp]:
  "loopStarts (animate_p000 f s) = loopStarts s"
  "backgroundPlays (animate_p000 f s) = backgroundPlays s"
  "backgroundSound (animate_p000 f s) = backgroundSound s"
  "audioContextResumed (animate_p000 f s) = audioContextResumed s"
  "listener (animate_p000 f s) = listener s"
  "loadingProgressText (animate_p000 f s) = loadingProgressText s"
  "loadingOverlayHidden (animate_p000 f s) = loadingOverlayHidden s"
  "loadingProgressDisplay (animate_p000 f s) = loadingProgressDisplay s"
  "audioUnlockButtonDisplay (animate_p000 f s) = audioUnlockButtonDisplay s"
  "audioUnlockButtonText (animate_p000 f s) = audioUnlockButtonText s"
  "audioUnlockButtonHidden (animate_p000 f s) = audioUnlockButtonHidden s"
  "alerts (animate_p000 f s) = alerts s"
  by (simp_all add: animate_p000_def Let_def)

lemmas input_defs =
  keydown_def keyup_def wheel_def wheel_p000_def onMouseMove_def onTouchStart_def
  onTouchMove_def onTouchEnd_def

text \<open>Neither does an input listener.\<close>

lemma readiness_keydown [simp]:
  "sceneReady (keydown c s) = sceneReady s"
  "isCameraLoaded (keydown c s) = isCameraLoaded s"
  "listener (keydown c s) = listener s"
  "loopStarts (keydown c s) = loopStarts s"
  "pendingFrames (keydown c s) = pendingFrames s"
  "backgroundSound (keydown c s) = backgroundSound s"
  "backgroundPlays (keydown c s) = backgroundPlays s"
  "loadingOverlayHidden (keydown c s) = loadingOverlayHidden s"
  "loadingProgressText (keydown c s) = loadingProgressText s"
  "loadingProgressDisplay (keydown c s) = loadingProgressDisplay s"
  "audioUnlockButtonDisplay (keydown c s) = audioUnlockButtonDisplay s"
  "audioUnlockButtonText (keydown c s) = audioUnlockButtonText s"
  "alerts (keydown c s) = alerts s"
  by (simp_all add: input_defs Let_def split: list.splits)

lemma readiness_keyup [simp]:
  "sceneReady (keyup c s) = sceneReady s"
  "isCameraLoaded (keyup c s) = isCameraLoaded s"
  "listener (keyup c s) = listener s"
  "loopStarts (keyup c s) = loopStarts s"
  "pendingFrames (keyup c s) = pendingFrames s"
  "backgroundSound (keyup c s) = backgroundSound s"
  "backgroundPlays (keyup c s) = backgroundPlays s"
  "loadingOverlayHidden (keyup c s) = loadingOverlayHidden s"
  "loadingProgressText (keyup c s) = loadingProgressText s"
  "loadingProgressDisplay (keyup c s) = loadingProgressDisplay s"
  "audioUnlockButtonDisplay (keyup c s) = audioUnlockButtonDisplay s"
  "audioUnlockButtonText (keyup c s) = audioUnlockButtonText s"
  "alerts (keyup c s) = alerts s"
  by (simp_all add: input_defs Let_def split: list.splits)

lemma readiness_wheel [simp]:
  "sceneReady (wheel d s) = sceneReady s"
  "isCameraLoaded (wheel d s) = isCameraLoaded s"
  "listener (wheel d s) = listener s"
  "loopStarts (wheel d s) = loopStarts s"
  "pendingFrames (wheel d s) = pendingFrames s"
  "backgroundSound (wheel d s) = backgroundSound s"
  "backgroundPlays (wheel d s) = backgroundPlays s"
  "loadingOverlayHidden (wheel d s) = loadingOverlayHidden s"
  "loadingProgressText (wheel d s) = loadingProgressText s"
  "loadingProgressDisplay (wheel d s) = loadingProgressDisplay s"
  "audioUnlockButtonDisplay (wheel d s) = audioUnlockButtonDisplay s"
  "audioUnlockButtonText (wheel d s) = audioUnlockButtonText s"
  "alerts (wheel d s) = alerts s"
  by (simp_all add: input_defs Let_def split: list.splits)

lemma readiness_wheel_p000 [simp]:
  "sceneReady (wheel_p000 d s) = sceneReady s"
  "isCameraLoaded (wheel_p000 d s) = isCameraLoaded s"
  "listener (wheel_p000 d s) = listener s"
  "loopStarts (wheel_p000 d s) = loopStarts s"
  "pendingFrames (wheel_p000 d s) = pendingFrames s"
  "backgroundSound (wheel_p000 d s) = backgroundSound s"
  "backgroundPlays (wheel_p000 d s) = backgroundPlays s"
  "loadingOverlayHidden (wheel_p000 d s) = loadingOverlayHidden s"
  "loadingProgressText (wheel_p000 d s) = loadingProgressText s"
  "loadingProgressDisplay (wheel_p000 d s) = loadingProgressDisplay s"
  "audioUnlockButtonDisplay (wheel_p000 d s) = audioUnlockButtonDisplay s"
  "audioUnlockButtonText (wheel_p000 d s) = audioUnlockButtonText s"
  "alerts (wheel_p000 d s) = alerts s"
  by (simp_all add: input_defs Let_def split: list.splits)

lemma readiness_onMouseMove [simp]:
  "sceneReady (onMouseMove a b s) = sceneReady s"
  "isCameraLoaded (onMouseMove a b s) = isCameraLoaded s"
  "listener (onMouseMove a b s) = listener s"
  "loopStarts (onMouseMove a b s) = loopStarts s"
  "pendingFrames (onMouseMove a b s) = pendingFrames s"
  "backgroundSound (onMouseMove a b s) = backgroundSound s"
  "backgroundPlays (onMouseMove a b s) = backgroundPlays s"
  "loadingOverlayHidden (onMouseMove a b s) = loadingOverlayHidden s"
  "loadingProgressText (onMouseMove a b s) = loadingProgressText s"
  "loadingProgressDisplay (onMouseMove a b s) = loadingProgressDisplay s"
  "audioUnlockButtonDisplay (onMouseMove a b s) = audioUnlockButtonDisplay s"
  "audioUnlockButtonText (onMouseMove a b s) = audioUnlockButtonText s"
  "alerts (onMouseMove a b s) = alerts s"
  by (simp_all add: input_defs Let_def split: list.splits)

lemma readiness_onTouchStart [simp]:
  "sceneReady (onTouchStart ts s) = sceneReady s"
  "isCameraLoaded (onTouchStart ts s) = isCameraLoaded s"
  "listener (onTouchStart ts s) = listener s"
  "loopStarts (onTouchStart ts s) = loopStarts s"
  "pendingFrames (onTouchStart ts s) = pendingFrames s"
  "backgroundSound (onTouchStart ts s) = backgroundSound s"
  "backgroundPlays (onTouchStart ts s) = backgroundPlays s"
  "loadingOverlayHidden (onTouchStart ts s) = loadingOverlayHidden s"
  "loadingProgressText (onTouchStart ts s) = loadingProgressText s"
  "loadingProgressDisplay (onTouchStart ts s) = loadingProgressDisplay s"
  "audioUnlockButtonDisplay (onTouchStart ts s) = audioUnlockButtonDisplay s"
  "audioUnlockButtonText (onTouchStart ts s) = audioUnlockButtonText s"
  "alerts (onTouchStart ts s) = alerts s"
  by (simp_all add: input_defs Let_def split: list.splits)

lemma readiness_onTouchMove [simp]:
  "sceneReady (onTouchMove ts s) = sceneReady s"
  "isCameraLoaded (onTouchMove ts s) = isCameraLoaded s"
  "listener (onTouchMove ts s) = listener s"
  "loopStarts (onTouchMove ts s) = loopStarts s"
  "pendingFrames (onTouchMove ts s) = pendingFrames s"
  "backgroundSound (onTouchMove ts s) = backgroundSound s"
  "backgroundPlays (onTouchMove ts s) = backgroundPlays s"
  "loadingOverlayHidden (onTouchMove ts s) = loadingOverlayHidden s"
  "loadingProgressText (onTouchMove ts s) = loadingProgressText s"
  "loadingProgressDisplay (onTouchMove ts s) = loadingProgressDisplay s"
  "audioUnlockButtonDisplay (onTouchMove ts s) = audioUnlockButtonDisplay s"
  "audioUnlockButtonText (onTouchMove ts s) = audioUnlockButtonText s"
  "alerts (onTouchMove ts s) = alerts s"
  by (simp_all add: input_defs Let_def split: list.splits)

lemma readiness_onTouchEnd [simp]:
  "sceneReady (onTouchEnd ts s) = sceneReady s"
  "isCameraLoaded (onTouchEnd ts s) = isCameraLoaded s"
  "listener (onTouchEnd ts s) = listener s"
  "loopStarts (onTouchEnd ts s) = loopStarts s"
  "pendingFrames (onTouchEnd ts s) = pendingFrames s"
  "backgroundSound (onTouchEnd ts s) = backgroundSound s"
  "backgroundPlays (onTouchEnd ts s) = backgroundPlays s"
  "loadingOverlayHidden (onTouchEnd ts s) = loadingOverlayHidden s"
  "loadingProgressText (onTouchEnd ts s) = loadingProgressText s"
  "loadingProgressDisplay (onTouchEnd ts s) = loadingProgressDisplay s"
  "audioUnlockButtonDisplay (onTouchEnd ts s) = audioUnlockButtonDisplay s"
  "audioUnlockButtonText (onTouchEnd ts s) = audioUnlockButtonText s"
  "alerts (onTouchEnd ts s) = alerts s"
  by (simp_all add: input_defs Let_def split: list.splits)

lemma startExperience_ready [simp]: "sceneReady s \<Longrightarrow> startExperience f s = s"
  by (simp add: startExperience_def)

lemma startExperience_p000_ready [simp]: "sceneReady s \<Longrightarrow> startExperience_p000 f s = s"
  by (simp add: startExperience_p000_def)

lemma p000_step_flags [simp]:
  "isCameraLoaded (controlInfoPanel_p000 f n s) = isCameraLoaded s"
  "isCameraLoaded (cameraMovement_p000 f s) = isCameraLoaded s"
  "sceneReady (cameraMovement_p000 f s) = sceneReady s"
  "pendingFrames (cameraMovement_p000 f s) = pendingFrames s"
  by (simp_all add: controlInfoPanel_p000_def cameraMovement_p000_def wasdMovement_p000_def
      scrollMovement_p000_def Let_def)

lemma animate_p000_flags [simp]:
  "isCameraLoaded (animate_p000 f s) = isCameraLoaded s"
  "sceneReady (animate_p000 f s) = sceneReady s"
  by (simp_all add: animate_p000_def Let_def)

lemma pendingFrames_animate_p000:
  "pendingFrames (animate_p000 f s) = (if sceneReady s then pendingFrames s + 1 else pendingFrames s)"
  by (simp add: animate_p000_def Let_def) (simp add: requestAnimationFrame_def)

lemma startExperience_effect:
  "sceneReady (startExperience f s)"
  "isCameraLoaded (startExperience f s) = isCameraLoaded s"
  "listener (startExperience f s) = listener s"
  "backgroundSound (startExperience f s) = backgroundSound s"
  "backgroundPlays (startExperience f s) = backgroundPlays s"
  "audioContextResumed (startExperience f s) = audioContextResumed s"
  "loopStarts (startExperience f s) =
     (if \<not> sceneReady s \<and> isCameraLoaded s then loopStarts s + 1 else loopStarts s)"
  "pendingFrames (startExperience f s) =
     (if \<not> sceneReady s \<and> isCameraLoaded s then pendingFrames s + 1 else pendingFrames s)"
  by (simp_all add: startExperience_def Let_def pendingFrames_animate)

lemma startExperience_p000_effect:
  "sceneReady (startExperience_p000 f s)"
  "isCameraLoaded (startExperience_p000 f s) = isCameraLoaded s"
  "listener (startExperience_p000 f s) = listener s"
  "backgroundSound (startExperience_p000 f s) = backgroundSound s"
  "backgroundPlays (startExperience_p000 f s) = backgroundPlays s"
  "audioContextResumed (startExperience_p000 f s) = audioContextResumed s"
  "loopStarts (startExperience_p000 f s) =
     (if \<not> sceneReady s \<and> isCameraLoaded s then loopStarts s + 1 else loopStarts s)"
  "pendingFrames (startExperience_p000 f s) =
     (if \<not> sceneReady s \<and> isCameraLoaded s then pendingFrames s + 1 else pendingFrames s)"
  by (simp_all add: startExperience_p000_def Let_def pendingFrames_animate_p000)

lemma startExperience_without_camera:
  "\<not> isCameraLoaded s \<Longrightarrow> \<not> sceneReady s \<Longrightarrow> cameraFailed (startExperience f s)"
  by (simp add: startExperience_def cameraFailed_def Let_def)

lemma startExperience_p000_without_camera:
  "\<not> isCameraLoaded s \<Longrightarrow> \<not> sceneReady s \<Longrightarrow>
   startExperience_p000 f s =
     s\<lparr>loadingOverlayHidden := True, sceneReady := True,
       alerts := alerts s @ [''Error: Could not initialize camera.'']\<rparr>"
  by (simp add: startExperience_p000_def Let_def)

lemma playBackgroundSound_effect:
  "sceneReady (playBackgroundSound t s) = sceneReady s"
  "isCameraLoaded (playBackgroundSound t s) = isCameraLoaded s"
  "listener (playBackgroundSound t s) = listener s"
  "loopStarts (playBackgroundSound t s) = loopStarts s"
  "pendingFrames (playBackgroundSound t s) = pendingFrames s"
  "loadingOverlayHidden (playBackgroundSound t s) = loadingOverlayHidden s"
  "loadingProgressText (playBackgroundSound t s) = loadingProgressText s"
  "loadingProgressDisplay (playBackgroundSound t s) = loadingProgressDisplay s"
  "audioUnlockButtonDisplay (playBackgroundSound t s) = audioUnlockButtonDisplay s"
  "audioUnlockButtonText (playBackgroundSound t s) = audioUnlockButtonText s"
  by (simp_all add: playBackgroundSound_def split: option.splits)

lemma bgPlaying_simps [simp]:
  "bgPlaying (keydown c s) = bgPlaying s" "bgPlaying (keyup c s) = bgPlaying s"
  "bgPlaying (wheel d s) = bgPlaying s" "bgPlaying (wheel_p000 d s) = bgPlaying s"
  "bgPlaying (onMouseMove a b s) = bgPlaying s" "bgPlaying (onTouchStart ts s) = bgPlaying s"
  "bgPlaying (onTouchMove ts s) = bgPlaying s" "bgPlaying (onTouchEnd ts s) = bgPlaying s"
  "bgPlaying (animate f s) = bgPlaying s" "bgPlaying (animate_p000 f s) = bgPlaying s"
  "bgPlaying (startExperience f s) = bgPlaying s"
  "bgPlaying (startExperience_p000 f s) = bgPlaying s"
  "bgPlaying (s\<lparr>pendingFrames := k\<rparr>) = bgPlaying s"
  "bgPlaying (s\<lparr>audioUnlockButtonText := x\<rparr>) = bgPlaying s"
  "bgPlaying (s\<lparr>audioUnlockButtonHidden := y\<rparr>) = bgPlaying s"
  by (simp_all add: bgPlaying_def startExperience_effect startExperience_p000_effect)


lemmas unlock_defs = unlockClick_def resumeThen_def resumeCatch_def
  unlockClick_p000_def resumeThen_p000_def resumeCatch_p000_def

subsection \<open>One event\<close>

lemma handle_flags:
  "sceneReady s \<Longrightarrow> sceneReady (handle e s)"
  "isCameraLoaded (handle e s) = isCameraLoaded s"
  "listener (handle e s) = listener s"
  by (cases e; simp add: unlock_defs Let_def startExperience_effect playBackgroundSound_effect
        split: AudioContextState.splits)+

lemma handle_loopStarts:
  "loopStarts (handle e s) =
     loopStarts s +
       (if \<not> sceneReady s \<and> sceneReady (handle e s) \<and> isCameraLoaded s then 1 else 0)"
  by (cases e; simp add: unlock_defs Let_def startExperience_effect playBackgroundSound_effect
        split: AudioContextState.splits)



lemma handle_p000_flags:
  "sceneReady s \<Longrightarrow> sceneReady (handle_p000 e s)"
  "isCameraLoaded (handle_p000 e s) = isCameraLoaded s"
  "listener (handle_p000 e s) = listener s"
  by (cases e; simp add: unlock_defs Let_def startExperience_p000_effect playBackgroundSound_effect
        split: AudioContextState.splits)+

lemma handle_p000_loopStarts:
  "loopStarts (handle_p000 e s) =
     loopStarts s +
       (if \<not> sceneReady s \<and> sceneReady (handle_p000 e s) \<and> isCameraLoaded s then 1 else 0)"
  by (cases e; simp add: unlock_defs Let_def startExperience_p000_effect playBackgroundSound_effect
        split: AudioContextState.splits)






lemma handle_frameInv: "frameInv s \<Longrightarrow> frameInv (handle e s)"
  by (cases e; auto simp add: frameInv_def unlock_defs Let_def startExperience_effect
        playBackgroundSound_effect pendingFrames_animate
        split: AudioContextState.splits if_splits)

lemma handle_p000_no_camera:
  "\<not> isCameraLoaded s \<Longrightarrow> pendingFrames s = 0 \<Longrightarrow> pendingFrames (handle_p000 e s) = 0"
  by (cases e; simp add: unlock_defs Let_def startExperience_p000_effect
        playBackgroundSound_effect split: AudioContextState.splits)

lemma handle_cameraFailed: "cameraFailed s \<Longrightarrow> cameraFailed (handle e s)"
  by (cases e; simp add: cameraFailed_def unlock_defs Let_def animate_def
        playBackgroundSound_effect split: AudioContextState.splits)

subsection \<open>Runs\<close>

lemma run_flags:
  "isCameraLoaded (run es s) = isCameraLoaded s"
  "listener (run es s) = listener s"
  by (induction es arbitrary: s) (simp_all add: handle_flags)

lemma run_sceneReady: "sceneReady s \<Longrightarrow> sceneReady (run es s)"
  by (induction es arbitrary: s) (simp_all add: handle_flags)


lemma run_loopStarts:
  "loopStarts (run es s) =
     loopStarts s + (if \<not> sceneReady s \<and> sceneReady (run es s) \<and> isCameraLoaded s then 1 else 0)"
proof (induction es arbitrary: s)
  case Nil
  show ?case by simp
next
  case (Cons e es)
  show ?case
  proof (cases "sceneReady (handle e s)")
    case True
    then have "sceneReady (run es (handle e s))" by (rule run_sceneReady)
    with True show ?thesis
      using Cons.IH [of "handle e s"] handle_loopStarts [of e s] by simp
  next
    case False
    then have "\<not> sceneReady s" using handle_flags(1) [of s e] by blast
    with False show ?thesis
      using Cons.IH [of "handle e s"] handle_loopStarts [of e s] by (simp add: handle_flags)
  qed
qed


lemma run_p000_flags:
  "isCameraLoaded (run_p000 es s) = isCameraLoaded s"
  "listener (run_p000 es s) = listener s"
  by (induction es arbitrary: s) (simp_all add: handle_p000_flags)

lemma run_p000_sceneReady: "sceneReady s \<Longrightarrow> sceneReady (run_p000 es s)"
  by (induction es arbitrary: s) (simp_all add: handle_p000_flags)


lemma run_p000_loopStarts:
  "loopStarts (run_p000 es s) =
     loopStarts s + (if \<not> sceneReady s \<and> sceneReady (run_p000 es s) \<and> isCameraLoaded s then 1 else 0)"
proof (induction es arbitrary: s)
  case Nil
  show ?case by simp
next
  case (Cons e es)
  show ?case
  proof (cases "sceneReady (handle_p000 e s)")
    case True
    then have "sceneReady (run_p000 es (handle_p000 e s))" by (rule run_p000_sceneReady)
    with True show ?thesis
      using Cons.IH [of "handle_p000 e s"] handle_p000_loopStarts [of e s] by simp
  next
    case False
    then have "\<not> sceneReady s" using handle_p000_flags(1) [of s e] by blast
    with False show ?thesis
      using Cons.IH [of "handle_p000 e s"] handle_p000_loopStarts [of e s] by (simp add: handle_p000_flags)
  qed
qed




lemma run_frameInv: "frameInv s \<Longrightarrow> frameInv (run es s)"
  by (induction es arbitrary: s) (simp_all add: handle_frameInv)


lemma run_p000_no_camera:
  "\<not> isCameraLoaded s \<Longrightarrow> pendingFrames s = 0 \<Longrightarrow> pendingFrames (run_p000 es s) = 0"
  by (induction es arbitrary: s) (simp_all add: handle_p000_no_camera handle_p000_flags)

lemma run_cameraFailed: "cameraFailed s \<Longrightarrow> cameraFailed (run es s)"
  by (induction es arbitrary: s) (simp_all add: handle_cameraFailed)

subsection \<open>Unlocking without a camera\<close>

text \<open>
  Claim C2. Suppose the camera has not been loaded. Then no run of events starts the frame
  loop: \<^verbatim>\<open>startExperience\<close> never calls \<^verbatim>\<open>animate\<close>, and no frame callback becomes
  pending. If the experience has not been started yet, \<^verbatim>\<open>startExperience\<close> puts the page
  into the error state (overlay shown again, progress text \<^verbatim>\<open>Error: Camera Failed\<close>, unlock
  button removed), and no later event leaves that state. An unlock click ends with a fatal
  message on the page: at once when the audio context is not suspended, and after the
  \<^verbatim>\<open>resume()\<close> promise has settled when it is. The older variant reports the failure with an
  \<^verbatim>\<open>alert\<close> and does not start the loop either.
\<close>

theorem no_loop_without_camera:
  "\<not> isCameraLoaded s \<longrightarrow>
     loopStarts (run es s) = loopStarts s \<and> loopStarts (run_p000 es s) = loopStarts s \<and>
     (pendingFrames s = 0 \<longrightarrow> pendingFrames (run es s) = 0 \<and> pendingFrames (run_p000 es s) = 0) \<and>
     (\<not> sceneReady s \<longrightarrow>
        cameraFailed (startExperience f s) \<and>
        cameraFailed (run es (startExperience f s)) \<and>
        loopStarts (run es (startExperience f s)) = loopStarts s \<and>
        (c \<noteq> suspended \<longrightarrow> fatalMessageShown (unlockClick c t f s)) \<and>
        fatalMessageShown (resumeThen t f (unlockClick suspended t f s)) \<and>
        fatalMessageShown (resumeCatch f (unlockClick suspended t f s)) \<and>
        alerts (startExperience_p000 f s) = alerts s @ [''Error: Could not initialize camera.''] \<and>
        loopStarts (startExperience_p000 f s) = loopStarts s)"
proof (intro impI conjI)
  assume nc: "\<not> isCameraLoaded s"
  show "loopStarts (run es s) = loopStarts s" using nc by (simp add: run_loopStarts)
  show "loopStarts (run_p000 es s) = loopStarts s" using nc by (simp add: run_p000_loopStarts)
  {
    assume p: "pendingFrames s = 0"
    then have "frameInv (run es s)" by (intro run_frameInv) (simp add: frameInv_def)
    then show "pendingFrames (run es s) = 0" using nc by (simp add: frameInv_def run_flags)
    show "pendingFrames (run_p000 es s) = 0" using nc p by (rule run_p000_no_camera)
  }
  assume nr: "\<not> sceneReady s"
  show cf: "cameraFailed (startExperience f s)"
    using nc nr by (rule startExperience_without_camera)
  then show "cameraFailed (run es (startExperience f s))" by (rule run_cameraFailed)
  show "loopStarts (run es (startExperience f s)) = loopStarts s"
    using nc nr by (simp add: run_loopStarts startExperience_effect)
  show "fatalMessageShown (unlockClick c t f s)" if "c \<noteq> suspended"
    using nc nr that
    by (cases c) (simp_all add: fatalMessageShown_def unlockClick_def startExperience_def
        playBackgroundSound_effect Let_def)
  show "fatalMessageShown (resumeThen t f (unlockClick suspended t f s))"
    using nc nr
    by (simp add: fatalMessageShown_def unlockClick_def resumeThen_def startExperience_def
        playBackgroundSound_effect Let_def)
  show "fatalMessageShown (resumeCatch f (unlockClick suspended t f s))"
    using nc nr
    by (simp add: fatalMessageShown_def unlockClick_def resumeCatch_def startExperience_def
        Let_def)
  show "alerts (startExperience_p000 f s) = alerts s @ [''Error: Could not initialize camera.'']"
    using nc nr by (simp add: startExperience_p000_without_camera)
  show "loopStarts (startExperience_p000 f s) = loopStarts s"
    using nc by (simp add: startExperience_p000_effect)
qed

theorem no_loop_without_camera_witness:
  "\<not> isCameraLoaded initialGlobals \<and> \<not> sceneReady initialGlobals \<and>
   pendingFrames initialGlobals = 0 \<and> running \<noteq> suspended \<and>
   loopStarts (run [UnlockClick running False exampleFrame, AnimationFrame exampleFrame]
                 initialGlobals) = 0 \<and>
   pendingFrames (run [UnlockClick running False exampleFrame, AnimationFrame exampleFrame]
                    initialGlobals) = 0 \<and>
   cameraFailed (startExperience exampleFrame initialGlobals) \<and>
   fatalMessageShown (unlockClick running False exampleFrame initialGlobals) \<and>
   audioUnlockButtonText (unlockClick running False exampleFrame initialGlobals)
     = ''Error: Audio not ready''"
proof -
  have h: "\<not> isCameraLoaded initialGlobals" "\<not> sceneReady initialGlobals"
    "pendingFrames initialGlobals = 0" "loopStarts initialGlobals = 0" "running \<noteq> suspended"
    by (simp_all add: initialGlobals_def)
  have v: "audioUnlockButtonText (unlockClick running False exampleFrame initialGlobals)
     = ''Error: Audio not ready''"
    by (simp add: unlockClick_def initialGlobals_def)
  from no_loop_without_camera [where s = initialGlobals and c = running and t = False
      and f = exampleFrame
      and es = "[UnlockClick running False exampleFrame, AnimationFrame exampleFrame]"] h v
  show ?thesis by simp
qed

subsection \<open>Unlocking twice\<close>




section \<open>Input before the scene is ready\<close>

lemma pre_ready_wheel_discarded:
  "\<not> inputReady s \<Longrightarrow> wheel d s = s \<and> wheel_p000 d s = s"
  by (auto simp add: inputReady_def wheel_def wheel_p000_def)

lemma pre_ready_touchstart_discarded:
  "\<not> inputReady s \<Longrightarrow> onTouchStart ts s = s"
  by (auto simp add: inputReady_def onTouchStart_def)

lemma pre_ready_touchmove:
  "\<not> inputReady s \<Longrightarrow> onTouchMove ts s = s\<lparr>isTouching := (length ts = 1)\<rparr>"
  by (auto simp add: inputReady_def onTouchMove_def)

lemma startExperience_overlay:
  "loadingOverlayHidden (startExperience f s) =
     (if sceneReady s then loadingOverlayHidden s else isCameraLoaded s)"
  by (simp add: startExperience_def Let_def)

lemma useCamera_overlayInv: "overlayInv (useCamera cam initialGlobals)"
  by (simp add: overlayInv_def useCamera_def initialGlobals_def Let_def split: option.splits)

lemma handle_overlayInv: "overlayInv s \<Longrightarrow> overlayInv (handle e s)"
  by (cases e; auto simp add: overlayInv_def inputReady_def unlock_defs Let_def
        startExperience_effect startExperience_overlay playBackgroundSound_effect
        split: AudioContextState.splits if_splits)

lemma dispatch_overlayInv: "overlayInv s \<Longrightarrow> overlayInv (dispatch e s)"
  by (simp add: dispatch_def handle_overlayInv)

lemma runPage_overlayInv: "overlayInv s \<Longrightarrow> overlayInv (runPage es s)"
  by (induction es arbitrary: s) (simp_all add: dispatch_overlayInv)

lemma runPage_append: "runPage (es @ es') s = runPage es' (runPage es s)"
  by (induction es arbitrary: s) simp_all

lemma run_p000_append: "run_p000 (es @ es') s = run_p000 es' (run_p000 es s)"
  by (induction es arbitrary: s) simp_all

lemma dispatch_pre_ready:
  "overlayInv s \<Longrightarrow> \<not> inputReady s \<Longrightarrow> pointerInput e \<Longrightarrow> dispatch e s = s"
  by (cases e) (auto simp add: dispatch_def overlayInv_def pre_ready_wheel_discarded)

lemma handle_p000_pre_ready:
  "\<not> inputReady s \<Longrightarrow> pointerInput e \<Longrightarrow> handle_p000 e s = s"
  by (cases e) (auto simp add: pre_ready_wheel_discarded)

text \<open>
  Claim C10. While the camera is not loaded or the experience has not been started, the
  wheel listener (of both variants) and the touch-start listener return without writing
  anything. The touch-move listener, called in such a state, leaves the scroll velocity
  and \<open>touchStartY\<close> as they are; its early-return branch, which a ready scene takes as
  well, stores in \<open>isTouching\<close> whether exactly one touch is down. On the page that call is
  not made: in every state that a run reaches from the loaded scene the overlay is hidden
  only when the scene is ready, so no touch event is dispatched to the canvas before.
  Hence every wheel, touch-start or touch-move event that arrives before the scene is
  ready leaves the whole state as it is, and a run with such an event ends in the same
  state as the run without it: the event contributes nothing to later motion. The older
  variant has no touch listeners. Runs do not contain the teardown of the page.
\<close>

theorem pre_ready_input_discarded:
  "(\<not> inputReady s \<longrightarrow>
      wheel d s = s \<and> wheel_p000 d s = s \<and> onTouchStart ts s = s \<and>
      onTouchMove ts s = s\<lparr>isTouching := (length ts = 1)\<rparr> \<and>
      scrollVelocityX (onTouchMove ts s) = scrollVelocityX s \<and>
      touchStartY (onTouchMove ts s) = touchStartY s) \<and>
   overlayInv (useCamera cam initialGlobals) \<and>
   (overlayInv s \<longrightarrow> overlayInv (runPage es s)) \<and>
   (overlayInv s \<and> \<not> inputReady (runPage es s) \<and> pointerInput e \<longrightarrow>
      dispatch e (runPage es s) = runPage es s \<and>
      runPage (es @ e # es') s = runPage (es @ es') s) \<and>
   (\<not> inputReady (run_p000 es s) \<and> pointerInput e \<longrightarrow>
      handle_p000 e (run_p000 es s) = run_p000 es s \<and>
      run_p000 (es @ e # es') s = run_p000 (es @ es') s)"
  by (simp add: pre_ready_wheel_discarded pre_ready_touchstart_discarded pre_ready_touchmove
      runPage_overlayInv runPage_append run_p000_append dispatch_pre_ready handle_p000_pre_ready
      useCamera_overlayInv)

theorem pre_ready_input_discarded_witness:
  "overlayInv initialGlobals \<and>
   overlayInv (loadedGlobals (Vector3 0 0 0)) \<and> \<not> inputReady (loadedGlobals (Vector3 0 0 0)) \<and>
   pointerInput (TouchMove [300]) \<and>
   wheel 100 (loadedGlobals (Vector3 0 0 0)) = loadedGlobals (Vector3 0 0 0) \<and>
   onTouchStart [300] (loadedGlobals (Vector3 0 0 0)) = loadedGlobals (Vector3 0 0 0) \<and>
   onTouchMove [300] (loadedGlobals (Vector3 0 0 0))
     = (loadedGlobals (Vector3 0 0 0))\<lparr>isTouching := True\<rparr> \<and>
   dispatch (TouchMove [300]) (loadedGlobals (Vector3 0 0 0)) = loadedGlobals (Vector3 0 0 0) \<and>
   runPage (TouchMove [300] # exampleEarlyTouch) (loadedGlobals (Vector3 0 0 0))
     = runPage exampleEarlyTouch (loadedGlobals (Vector3 0 0 0)) \<and>
   scrollVelocityX (runPage exampleEarlyTouch (loadedGlobals (Vector3 0 0 0))) = - (1 / 10)"
proof -
  have h: "overlayInv initialGlobals" "overlayInv (loadedGlobals (Vector3 0 0 0))"
    "\<not> inputReady (loadedGlobals (Vector3 0 0 0))" "pointerInput (TouchMove [300])"
    by (simp_all add: overlayInv_def inputReady_def loadedGlobals_def useCamera_def
        initialGlobals_def Let_def)
  have v: "scrollVelocityX (runPage exampleEarlyTouch (loadedGlobals (Vector3 0 0 0))) = - (1 / 10)"
    by (simp add: exampleEarlyTouch_def dispatch_def loadedGlobals_def initialGlobals_def
        exampleFrame_def model_defs constants)
  from pre_ready_input_discarded [where s = "loadedGlobals (Vector3 0 0 0)" and es = "[]"
      and e = "TouchMove [300]" and es' = exampleEarlyTouch and d = 100 and ts = "[300]"] h v
  show ?thesis by simp
qed

section \<open>Damping in the older variant, and the damping claim\<close>

lemma wasdMovement_p000_fields [simp]:
  "scrollVelocityX (wasdMovement_p000 f r s) = scrollVelocityX s"
  "sceneReady (wasdMovement_p000 f r s) = sceneReady s"
  by (simp_all add: wasdMovement_p000_def Let_def)

lemma cameraPosition_wasdMovement_p000_cong:
  "cameraPosition s' = cameraPosition s \<Longrightarrow> movedWASD s' = movedWASD s \<Longrightarrow>
   wasdPotential s' = wasdPotential s \<Longrightarrow>
   cameraPosition (wasdMovement_p000 f r s') = cameraPosition (wasdMovement_p000 f r s)"
  by (simp add: wasdMovement_p000_def Let_def)

lemma controlInfoPanel_p000_moves [simp]:
  "movedWASD (controlInfoPanel_p000 f n s) = movedWASD s"
  "wasdPotential (controlInfoPanel_p000 f n s) = wasdPotential s"
  by (simp_all add: controlInfoPanel_p000_def Let_def movedWASD_def wasdPotential_def fun_eq_iff)

lemma wasdMovement_p000_after_hover:
  "cameraPosition
     (wasdMovement_p000 f r
        (controlInfoPanel_p000 f n (controlVideoPlayback f (requestAnimationFrame s)))) =
   cameraPosition (wasdMovement_p000 f r s)"
  by (rule cameraPosition_wasdMovement_p000_cong) simp_all

lemma scrollMovement_p000_velocity:
  "scrollVelocityX (scrollMovement_p000 f r s) =
     (if \<bar>scrollVelocityX s\<bar> > 1 / 1000 \<and> inBounds_p000 (potentialPositionScroll f r s)
      then scrollVelocityX s * scrollDamping_p000 else 0)"
  by (simp add: scrollMovement_p000_def Let_def)

lemma animate_p000_velocity:
  "sceneReady s \<Longrightarrow>
   scrollVelocityX (animate_p000 f s) =
     (if \<bar>scrollVelocityX s\<bar> > 1 / 1000 \<and> scrollStepInside_p000 f s
      then scrollVelocityX s * scrollDamping_p000 else 0)"
  by (simp add: animate_p000_def cameraMovement_p000_def Let_def scrollMovement_p000_velocity
      potentialPositionScroll_def scrollStepInside_p000_def wasdPosition_p000_def
      wasdMovement_p000_after_hover)

lemma frame_consumed_fields_p000 [simp]:
  "wasdPosition_p000 f (s\<lparr>pendingFrames := k\<rparr>) = wasdPosition_p000 f s"
  "scrollStepInside_p000 f (s\<lparr>pendingFrames := k\<rparr>) = scrollStepInside_p000 f s"
  by (simp_all add: scrollStepInside_p000_def wasdPosition_p000_def wasdMovement_p000_def
      movedWASD_def wasdPotential_def Let_def)

lemma loopRunning_handle_p000:
  "noScrollInput e \<Longrightarrow> sceneReady s \<Longrightarrow> loopRunning s \<Longrightarrow>
   sceneReady (handle_p000 e s) \<and> loopRunning (handle_p000 e s)"
  by (cases e)
     (simp_all add: loopRunning_def keydown_def keyup_def onMouseMove_def
        pendingFrames_animate_p000)

lemma velocity_quiet_nonframe_p000:
  "noScrollInput e \<Longrightarrow> \<not> isFrame e \<Longrightarrow> scrollVelocityX (handle_p000 e s) = scrollVelocityX s"
  by (cases e) (simp_all add: keydown_def keyup_def onMouseMove_def)

lemma frame_damped_p000:
  assumes "sceneReady s" "loopRunning s"
  shows "\<bar>scrollVelocityX (handle_p000 (AnimationFrame f) s)\<bar>
           \<le> scrollDamping_p000 * \<bar>scrollVelocityX s\<bar>"
    and "\<bar>scrollVelocityX s\<bar> \<le> 1 / 1000 \<Longrightarrow> scrollVelocityX (handle_p000 (AnimationFrame f) s) = 0"
  using assms
  by (simp_all add: loopRunning_def animate_p000_velocity scrollDamping_p000_def abs_mult)

lemma handle_damped_p000:
  assumes "sceneReady s" "loopRunning s" "noScrollInput e"
  shows "\<bar>scrollVelocityX (handle_p000 e s)\<bar> \<le> \<bar>scrollVelocityX s\<bar>"
proof (cases "isFrame e")
  case True
  then obtain f where e: "e = AnimationFrame f" by (cases e) simp_all
  have "scrollDamping_p000 * \<bar>scrollVelocityX s\<bar> \<le> \<bar>scrollVelocityX s\<bar>"
    by (simp add: scrollDamping_p000_def)
  with frame_damped_p000(1) [OF assms(1,2), of f] show ?thesis unfolding e by linarith
next
  case False
  with assms show ?thesis by (simp add: velocity_quiet_nonframe_p000)
qed

lemma run_p000_zero_stays:
  "sceneReady s \<Longrightarrow> loopRunning s \<Longrightarrow> \<forall>e\<in>set es. noScrollInput e \<Longrightarrow>
   scrollVelocityX s = 0 \<Longrightarrow> scrollVelocityX (run_p000 es s) = 0"
proof (induction es arbitrary: s)
  case Nil
  then show ?case by simp
next
  case (Cons e es)
  have "\<bar>scrollVelocityX (handle_p000 e s)\<bar> \<le> \<bar>scrollVelocityX s\<bar>"
    by (rule handle_damped_p000) (use Cons.prems in simp_all)
  also have "\<dots> = 0" using Cons.prems by simp
  finally have "scrollVelocityX (handle_p000 e s) = 0" by simp
  moreover have "sceneReady (handle_p000 e s) \<and> loopRunning (handle_p000 e s)"
    using Cons.prems by (simp add: loopRunning_handle_p000)
  ultimately show ?case using Cons.IH Cons.prems by simp
qed

lemma run_p000_velocity_reaches_zero:
  "sceneReady s \<Longrightarrow> loopRunning s \<Longrightarrow> \<forall>e\<in>set es. noScrollInput e \<Longrightarrow>
   scrollDamping_p000 ^ n * \<bar>scrollVelocityX s\<bar> \<le> 1 / 1000 \<Longrightarrow> n < frames es \<Longrightarrow>
   scrollVelocityX (run_p000 es s) = 0"
proof (induction es arbitrary: s n)
  case Nil
  then show ?case by (simp add: frames_def)
next
  case (Cons e es)
  have ready': "sceneReady (handle_p000 e s)" and loop': "loopRunning (handle_p000 e s)"
    using Cons.prems by (simp_all add: loopRunning_handle_p000)
  have quiet': "\<forall>e\<in>set es. noScrollInput e" using Cons.prems by simp
  show ?case
  proof (cases "isFrame e")
    case False
    then have "scrollVelocityX (handle_p000 e s) = scrollVelocityX s" "n < frames es"
      using Cons.prems by (simp_all add: velocity_quiet_nonframe_p000 frames_def)
    then show ?thesis using Cons.IH [OF ready' loop' quiet', of n] Cons.prems by simp
  next
    case True
    then obtain f where e: "e = AnimationFrame f" by (cases e) simp_all
    show ?thesis
    proof (cases n)
      case 0
      then have "scrollVelocityX (handle_p000 e s) = 0"
        unfolding e using Cons.prems by (intro frame_damped_p000(2)) simp_all
      then show ?thesis using run_p000_zero_stays [OF ready' loop' quiet'] by simp
    next
      case (Suc m)
      have "\<bar>scrollVelocityX (handle_p000 e s)\<bar> \<le> scrollDamping_p000 * \<bar>scrollVelocityX s\<bar>"
        unfolding e using Cons.prems by (intro frame_damped_p000(1)) simp_all
      moreover have "0 \<le> scrollDamping_p000 ^ m" by (simp add: scrollDamping_p000_def)
      ultimately have "scrollDamping_p000 ^ m * \<bar>scrollVelocityX (handle_p000 e s)\<bar>
          \<le> scrollDamping_p000 ^ m * (scrollDamping_p000 * \<bar>scrollVelocityX s\<bar>)"
        by (rule mult_left_mono)
      also have "\<dots> = scrollDamping_p000 ^ n * \<bar>scrollVelocityX s\<bar>" by (simp add: Suc)
      finally have small:
        "scrollDamping_p000 ^ m * \<bar>scrollVelocityX (handle_p000 e s)\<bar> \<le> 1 / 1000"
        using Cons.prems by simp
      have "m < frames es" using Cons.prems True by (simp add: frames_def Suc)
      from Cons.IH [OF ready' loop' quiet' small this] show ?thesis by simp
    qed
  qed
qed

lemma damping_p000_crosses_threshold:
  "\<exists>n. scrollDamping_p000 ^ n * B \<le> 1 / 1000"
proof (cases "B \<le> 0")
  case True
  then have "scrollDamping_p000 ^ 0 * B \<le> 1 / 1000" by simp
  then show ?thesis by blast
next
  case False
  then have pos: "0 < B" by simp
  then have "0 < 1 / 1000 / B" by simp
  moreover have "scrollDamping_p000 < 1" by (simp add: scrollDamping_p000_def)
  ultimately obtain n where "scrollDamping_p000 ^ n < 1 / 1000 / B"
    using real_arch_pow_inv by blast
  then have "scrollDamping_p000 ^ n * B < 1 / 1000" using pos by (simp add: pos_less_divide_eq)
  then show ?thesis by (metis less_eq_real_def)
qed

lemma bounded_ticks_to_zero:
  "\<exists>N. \<forall>s es. navReady s \<and> loopRunning s \<and> (\<forall>e\<in>set es. noScrollInput e) \<and>
        \<bar>scrollVelocityX s\<bar> \<le> B \<and> N \<le> frames es \<longrightarrow> scrollVelocityX (run es s) = 0"
proof -
  obtain n where n: "scrollDamping ^ n * B \<le> 1 / 10000"
    using damping_crosses_threshold by blast
  have "scrollVelocityX (run es s) = 0"
    if "navReady s" "loopRunning s" "\<forall>e\<in>set es. noScrollInput e"
      "\<bar>scrollVelocityX s\<bar> \<le> B" "Suc n \<le> frames es" for s es
  proof -
    have "0 \<le> scrollDamping ^ n" by (simp add: scrollDamping_def)
    with that(4) have "scrollDamping ^ n * \<bar>scrollVelocityX s\<bar> \<le> scrollDamping ^ n * B"
      by (rule mult_left_mono)
    with n have "scrollDamping ^ n * \<bar>scrollVelocityX s\<bar> \<le> 1 / 10000" by linarith
    moreover have "n < frames es" using that(5) by simp
    ultimately show ?thesis using that(1-3) by (rule run_velocity_reaches_zero [rotated 3])
  qed
  then show ?thesis by blast
qed

lemma bounded_ticks_to_zero_p000:
  "\<exists>N. \<forall>s es. sceneReady s \<and> loopRunning s \<and> (\<forall>e\<in>set es. noScrollInput e) \<and>
        \<bar>scrollVelocityX s\<bar> \<le> B \<and> N \<le> frames es \<longrightarrow> scrollVelocityX (run_p000 es s) = 0"
proof -
  obtain n where n: "scrollDamping_p000 ^ n * B \<le> 1 / 1000"
    using damping_p000_crosses_threshold by blast
  have "scrollVelocityX (run_p000 es s) = 0"
    if "sceneReady s" "loopRunning s" "\<forall>e\<in>set es. noScrollInput e"
      "\<bar>scrollVelocityX s\<bar> \<le> B" "Suc n \<le> frames es" for s es
  proof -
    have "0 \<le> scrollDamping_p000 ^ n" by (simp add: scrollDamping_p000_def)
    with that(4)
    have "scrollDamping_p000 ^ n * \<bar>scrollVelocityX s\<bar> \<le> scrollDamping_p000 ^ n * B"
      by (rule mult_left_mono)
    with n have "scrollDamping_p000 ^ n * \<bar>scrollVelocityX s\<bar> \<le> 1 / 1000" by linarith
    moreover have "n < frames es" using that(5) by simp
    ultimately show ?thesis using that(1-3) by (rule run_p000_velocity_reaches_zero [rotated 3])
  qed
  then show ?thesis by blast
qed

text \<open>
  Claim C5. In a frame on a ready scene with no touch drag in progress, a velocity above
  the threshold \<open>0.0001\<close> is multiplied by the damping factor \<open>0.75\<close> when the scroll step
  stays strictly inside the bounds, and set to \<open>0\<close> when the step would reach a bound; a
  velocity at or below the threshold is set to \<open>0\<close>. While a drag is in progress the
  damping is suspended: an inside step leaves the velocity as it is. The damping factor
  lies strictly between \<open>0\<close> and \<open>1\<close>. Consequently, for every bound \<open>B\<close> there is a number
  \<open>N\<close> of ticks such that every run without wheel, touch or unlock events that starts with
  the frame loop running, no drag in progress and a velocity of magnitude at most \<open>B\<close>,
  and that contains at least \<open>N\<close> frames, ends with velocity exactly \<open>0\<close>. The older
  variant has no touch input; with its threshold \<open>0.001\<close> and its factor \<open>0.60\<close> the same
  statements hold for it. The statement asserts that a bound exists, not its value.
\<close>

theorem scroll_damping_converges:
  "((navReady s \<longrightarrow>
      scrollVelocityX (animate f s) =
        (if 1 / 10000 < \<bar>scrollVelocityX s\<bar> \<and> scrollStepInside f s
         then scrollVelocityX s * scrollDamping else 0)) \<and>
    (isCameraLoaded s \<and> sceneReady s \<and> isTouching s \<longrightarrow>
      scrollVelocityX (animate f s) =
        (if 1 / 10000 < \<bar>scrollVelocityX s\<bar> \<and> scrollStepInside f s
         then scrollVelocityX s else 0)) \<and>
    0 < scrollDamping \<and> scrollDamping < 1 \<and>
    (\<exists>N. \<forall>s' es. navReady s' \<and> loopRunning s' \<and> (\<forall>e\<in>set es. noScrollInput e) \<and>
        \<bar>scrollVelocityX s'\<bar> \<le> B \<and> N \<le> frames es \<longrightarrow> scrollVelocityX (run es s') = 0)) \<and>
   ((sceneReady s \<longrightarrow>
      scrollVelocityX (animate_p000 f s) =
        (if 1 / 1000 < \<bar>scrollVelocityX s\<bar> \<and> scrollStepInside_p000 f s
         then scrollVelocityX s * scrollDamping_p000 else 0)) \<and>
    0 < scrollDamping_p000 \<and> scrollDamping_p000 < 1 \<and>
    (\<exists>N. \<forall>s' es. sceneReady s' \<and> loopRunning s' \<and> (\<forall>e\<in>set es. noScrollInput e) \<and>
        \<bar>scrollVelocityX s'\<bar> \<le> B \<and> N \<le> frames es \<longrightarrow>
        scrollVelocityX (run_p000 es s') = 0))"
  (is "?main \<and> ?older")
proof
  show ?main
    using bounded_ticks_to_zero [of B]
    by (simp add: navReady_def animate_velocity scrollDamping_def)
  show ?older
    using bounded_ticks_to_zero_p000 [of B]
    by (simp add: animate_p000_velocity scrollDamping_p000_def)
qed

theorem scroll_damping_converges_witness:
  "navReady exampleScrolling \<and> loopRunning exampleScrolling \<and>
   scrollVelocityX exampleScrolling = 1 \<and>
   scrollVelocityX (animate exampleFrame exampleScrolling) = 3 / 4 \<and>
   (\<exists>N. scrollVelocityX (run (replicate N (AnimationFrame exampleFrame)) exampleScrolling) = 0) \<and>
   (\<exists>N. scrollVelocityX (run_p000 (replicate N (AnimationFrame exampleFrame)) exampleScrolling) = 0) \<and>
   isCameraLoaded exampleDragging \<and> sceneReady exampleDragging \<and> isTouching exampleDragging \<and>
   scrollVelocityX exampleDragging = 1 \<and>
   scrollVelocityX (animate exampleFrame exampleDragging) = 1"
proof -
  have r: "navReady exampleScrolling" "loopRunning exampleScrolling" "sceneReady exampleScrolling"
    by (simp_all add: navReady_def loopRunning_def exampleScrolling_def exampleReady_def)
  have i: "scrollStepInside exampleFrame exampleScrolling"
    by (simp add: scrollStepInside_def wasdPosition_def exampleScrolling_def exampleReady_def
        exampleFrame_def model_defs constants)
  have v: "scrollVelocityX exampleScrolling = 1"
    by (simp add: exampleScrolling_def)
  have d: "isCameraLoaded exampleDragging" "sceneReady exampleDragging" "isTouching exampleDragging"
    "scrollVelocityX exampleDragging = 1"
    by (simp_all add: exampleDragging_def exampleReady_def)
  have j: "scrollStepInside exampleFrame exampleDragging"
    by (simp add: scrollStepInside_def wasdPosition_def exampleDragging_def exampleReady_def
        exampleFrame_def model_defs constants)
  note inst = scroll_damping_converges [where s = exampleScrolling and f = exampleFrame and B = 1]
  from inst r i v have a: "scrollVelocityX (animate exampleFrame exampleScrolling) = 3 / 4"
    by (simp add: scrollDamping_def)
  from inst obtain N where N: "\<forall>s' es. navReady s' \<and> loopRunning s' \<and>
      (\<forall>e\<in>set es. noScrollInput e) \<and> \<bar>scrollVelocityX s'\<bar> \<le> 1 \<and> N \<le> frames es
      \<longrightarrow> scrollVelocityX (run es s') = 0"
    by blast
  have "scrollVelocityX (run (replicate N (AnimationFrame exampleFrame)) exampleScrolling) = 0"
    using N r v by (simp add: frames_def)
  then have b: "\<exists>N. scrollVelocityX
      (run (replicate N (AnimationFrame exampleFrame)) exampleScrolling) = 0" ..
  from inst obtain M where M: "\<forall>s' es. sceneReady s' \<and> loopRunning s' \<and>
      (\<forall>e\<in>set es. noScrollInput e) \<and> \<bar>scrollVelocityX s'\<bar> \<le> 1 \<and> M \<le> frames es
      \<longrightarrow> scrollVelocityX (run_p000 es s') = 0"
    by blast
  have "scrollVelocityX (run_p000 (replicate M (AnimationFrame exampleFrame)) exampleScrolling) = 0"
    using M r v by (simp add: frames_def)
  then have c: "\<exists>N. scrollVelocityX
      (run_p000 (replicate N (AnimationFrame exampleFrame)) exampleScrolling) = 0" ..
  from scroll_damping_converges [where s = exampleDragging and f = exampleFrame] d j
  have e: "scrollVelocityX (animate exampleFrame exampleDragging) = 1"
    by simp
  from r v a b c d e show ?thesis by blast
qed

section \<open>Hover\<close>

lemma playing_pauseVideo: "playing (pauseVideo m s) n = (n \<noteq> m \<and> playing s n)"
  by (cases "videoElements s m") (simp_all add: playing_def pauseVideo_def video_pause_def)

lemma playing_playVideo:
  "playing (playVideo m s) n = (if n = m then videoElements s m \<noteq> None else playing s n)"
  by (cases "videoElements s m") (simp_all add: playing_def playVideo_def video_play_def)

lemma playing_hovered_update [simp]:
  "playing (s\<lparr>currentlyHoveredVideo := h\<rparr>) n = playing s n"
  by (simp add: playing_def)

lemma hovered_video_steps [simp]:
  "currentlyHoveredVideo (pauseVideo m s) = currentlyHoveredVideo s"
  "currentlyHoveredVideo (playVideo m s) = currentlyHoveredVideo s"
  "audioContextResumed (pauseVideo m s) = audioContextResumed s"
  by (simp_all add: pauseVideo_def playVideo_def)

lemma intersected_Some: "intersected f s = Some n \<Longrightarrow> hit f = Some n \<and> videoElements s n \<noteq> None"
  by (auto simp add: intersected_def split: option.splits)

lemma controlVideoPlayback_hoverInv:
  assumes "hoverInv s"
  shows "hoverInv (controlVideoPlayback f s)"
proof (cases "intersected f s")
  case None
  with assms show ?thesis
    by (cases "currentlyHoveredVideo s")
       (auto simp add: controlVideoPlayback_def hoverInv_def playing_pauseVideo)
next
  case (Some n)
  show ?thesis
  proof (cases "currentlyHoveredVideo s = Some n")
    case True
    with Some assms show ?thesis by (simp add: controlVideoPlayback_def)
  next
    case False
    with Some assms show ?thesis
      by (cases "currentlyHoveredVideo s")
         (auto simp add: controlVideoPlayback_def hoverInv_def Let_def playing_pauseVideo
            playing_playVideo split: if_splits)
  qed
qed

lemma controlVideoPlayback_pauses_previous:
  "intersected f s \<noteq> Some m \<Longrightarrow> currentlyHoveredVideo s = Some m \<Longrightarrow>
   \<not> playing (controlVideoPlayback f s) m"
  by (cases "intersected f s")
     (auto simp add: controlVideoPlayback_def Let_def playing_pauseVideo playing_playVideo)

text \<open>Only the playback step of a frame touches the videos.\<close>

lemma hover_controlInfoPanel [simp]:
  "videoElements (controlInfoPanel f n s) = videoElements s"
  "currentlyHoveredVideo (controlInfoPanel f n s) = currentlyHoveredVideo s"
  "playRequests (controlInfoPanel f n s) = playRequests s"
  "audioContextResumed (controlInfoPanel f n s) = audioContextResumed s"
  by (simp_all add: controlInfoPanel_def Let_def)

lemma hover_controlInfoPanel_p000 [simp]:
  "videoElements (controlInfoPanel_p000 f n s) = videoElements s"
  "currentlyHoveredVideo (controlInfoPanel_p000 f n s) = currentlyHoveredVideo s"
  "playRequests (controlInfoPanel_p000 f n s) = playRequests s"
  "audioContextResumed (controlInfoPanel_p000 f n s) = audioContextResumed s"
  by (simp_all add: controlInfoPanel_p000_def Let_def)

lemma hover_cameraMovement [simp]:
  "videoElements (cameraMovement f s) = videoElements s"
  "currentlyHoveredVideo (cameraMovement f s) = currentlyHoveredVideo s"
  "playRequests (cameraMovement f s) = playRequests s"
  "audioContextResumed (cameraMovement f s) = audioContextResumed s"
  by (simp_all add: cameraMovement_def wasdMovement_def scrollMovement_def Let_def)

lemma hover_cameraMovement_p000 [simp]:
  "videoElements (cameraMovement_p000 f s) = videoElements s"
  "currentlyHoveredVideo (cameraMovement_p000 f s) = currentlyHoveredVideo s"
  "playRequests (cameraMovement_p000 f s) = playRequests s"
  "audioContextResumed (cameraMovement_p000 f s) = audioContextResumed s"
  by (simp_all add: cameraMovement_p000_def wasdMovement_p000_def scrollMovement_p000_def Let_def)

lemma hover_requestAnimationFrame [simp]:
  "videoElements (requestAnimationFrame s) = videoElements s"
  "currentlyHoveredVideo (requestAnimationFrame s) = currentlyHoveredVideo s"
  "playRequests (requestAnimationFrame s) = playRequests s"
  "audioContextResumed (requestAnimationFrame s) = audioContextResumed s"
  by (simp_all add: requestAnimationFrame_def)

lemma hover_keydown [simp]:
  "videoElements (keydown c s) = videoElements s"
  "currentlyHoveredVideo (keydown c s) = currentlyHoveredVideo s"
  "playRequests (keydown c s) = playRequests s"
  by (simp_all add: input_defs Let_def split: list.splits)

lemma hover_keyup [simp]:
  "videoElements (keyup c s) = videoElements s"
  "currentlyHoveredVideo (keyup c s) = currentlyHoveredVideo s"
  "playRequests (keyup c s) = playRequests s"
  by (simp_all add: input_defs Let_def split: list.splits)

lemma hover_wheel [simp]:
  "videoElements (wheel d s) = videoElements s"
  "currentlyHoveredVideo (wheel d s) = currentlyHoveredVideo s"
  "playRequests (wheel d s) = playRequests s"
  by (simp_all add: input_defs Let_def split: list.splits)

lemma hover_wheel_p000 [simp]:
  "videoElements (wheel_p000 d s) = videoElements s"
  "currentlyHoveredVideo (wheel_p000 d s) = currentlyHoveredVideo s"
  "playRequests (wheel_p000 d s) = playRequests s"
  by (simp_all add: input_defs Let_def split: list.splits)

lemma hover_onMouseMove [simp]:
  "videoElements (onMouseMove a b s) = videoElements s"
  "currentlyHoveredVideo (onMouseMove a b s) = currentlyHoveredVideo s"
  "playRequests (onMouseMove a b s) = playRequests s"
  by (simp_all add: input_defs Let_def split: list.splits)

lemma hover_onTouchStart [simp]:
  "videoElements (onTouchStart ts s) = videoElements s"
  "currentlyHoveredVideo (onTouchStart ts s) = currentlyHoveredVideo s"
  "playRequests (onTouchStart ts s) = playRequests s"
  by (simp_all add: input_defs Let_def split: list.splits)

lemma hover_onTouchMove [simp]:
  "videoElements (onTouchMove ts s) = videoElements s"
  "currentlyHoveredVideo (onTouchMove ts s) = currentlyHoveredVideo s"
  "playRequests (onTouchMove ts s) = playRequests s"
  by (simp_all add: input_defs Let_def split: list.splits)

lemma hover_onTouchEnd [simp]:
  "videoElements (onTouchEnd ts s) = videoElements s"
  "currentlyHoveredVideo (onTouchEnd ts s) = currentlyHoveredVideo s"
  "playRequests (onTouchEnd ts s) = playRequests s"
  by (simp_all add: input_defs Let_def split: list.splits)

lemma hover_playBackgroundSound [simp]:
  "videoElements (playBackgroundSound t s) = videoElements s"
  "currentlyHoveredVideo (playBackgroundSound t s) = currentlyHoveredVideo s"
  "playRequests (playBackgroundSound t s) = playRequests s"
  by (simp_all add: playBackgroundSound_def split: option.splits)

lemma hoverInv_cong:
  "videoElements s' = videoElements s \<Longrightarrow> currentlyHoveredVideo s' = currentlyHoveredVideo s \<Longrightarrow>
   hoverInv s' = hoverInv s"
  by (simp add: hoverInv_def playing_def)

lemma controlVideoPlayback_cong:
  assumes "videoElements s' = videoElements s" "currentlyHoveredVideo s' = currentlyHoveredVideo s"
    "playRequests s' = playRequests s" "audioContextResumed s' = audioContextResumed s"
  shows "videoElements (controlVideoPlayback f s') = videoElements (controlVideoPlayback f s)"
    and "currentlyHoveredVideo (controlVideoPlayback f s') = currentlyHoveredVideo (controlVideoPlayback f s)"
    and "playRequests (controlVideoPlayback f s') = playRequests (controlVideoPlayback f s)"
  using assms
  by (simp_all add: controlVideoPlayback_def intersected_def pauseVideo_def playVideo_def Let_def
      split: option.splits)

lemma animate_hover:
  assumes "sceneReady s" "isCameraLoaded s"
  shows "videoElements (animate f s) = videoElements (controlVideoPlayback f s)"
    and "currentlyHoveredVideo (animate f s) = currentlyHoveredVideo (controlVideoPlayback f s)"
    and "playRequests (animate f s) = playRequests (controlVideoPlayback f s)"
  using assms
  by (simp_all add: animate_def Let_def controlVideoPlayback_cong [of "requestAnimationFrame s" s])

lemma animate_not_ready [simp]: "\<not> (sceneReady s \<and> isCameraLoaded s) \<Longrightarrow> animate f s = s"
  by (auto simp add: animate_def)

lemma animate_p000_hover:
  assumes "sceneReady s"
  shows "videoElements (animate_p000 f s) = videoElements (controlVideoPlayback f s)"
    and "currentlyHoveredVideo (animate_p000 f s) = currentlyHoveredVideo (controlVideoPlayback f s)"
  using assms
  by (simp_all add: animate_p000_def Let_def controlVideoPlayback_cong [of "requestAnimationFrame s" s])

lemma animate_hoverInv: "hoverInv s \<Longrightarrow> hoverInv (animate f s)"
proof (cases "sceneReady s \<and> isCameraLoaded s")
  case True
  assume "hoverInv s"
  then have "hoverInv (controlVideoPlayback f s)" by (rule controlVideoPlayback_hoverInv)
  then show ?thesis
    using True hoverInv_cong [of "animate f s" "controlVideoPlayback f s"]
    by (simp add: animate_hover)
next
  case False
  assume "hoverInv s"
  with False show ?thesis by simp
qed

lemma animate_p000_hoverInv: "hoverInv s \<Longrightarrow> hoverInv (animate_p000 f s)"
proof (cases "sceneReady s")
  case True
  assume "hoverInv s"
  then have "hoverInv (controlVideoPlayback f s)" by (rule controlVideoPlayback_hoverInv)
  then show ?thesis
    using True hoverInv_cong [of "animate_p000 f s" "controlVideoPlayback f s"]
    by (simp add: animate_p000_hover)
next
  case False
  assume "hoverInv s"
  with False show ?thesis by (simp add: animate_p000_def)
qed

lemma hoverInv_updates [simp]:
  "hoverInv (s\<lparr>pendingFrames := k\<rparr>) = hoverInv s"
  "hoverInv (s\<lparr>audioUnlockButtonText := x\<rparr>) = hoverInv s"
  "hoverInv (s\<lparr>audioUnlockButtonHidden := y\<rparr>) = hoverInv s"
  "hoverInv (s\<lparr>audioContextResumed := z\<rparr>) = hoverInv s"
  "hoverInv (playBackgroundSound t s) = hoverInv s"
  "hoverInv (keydown c s) = hoverInv s" "hoverInv (keyup c s) = hoverInv s"
  "hoverInv (wheel d s) = hoverInv s" "hoverInv (wheel_p000 d s) = hoverInv s"
  "hoverInv (onMouseMove a b s) = hoverInv s" "hoverInv (onTouchStart ts s) = hoverInv s"
  "hoverInv (onTouchMove ts s) = hoverInv s" "hoverInv (onTouchEnd ts s) = hoverInv s"
  by (rule hoverInv_cong; simp)+

lemma startExperience_hoverInv:
  assumes "hoverInv s"
  shows "hoverInv (startExperience f s)"
proof -
  have "hoverInv (s\<lparr>loadingOverlayHidden := True, sceneReady := True,
                    loopStarts := Suc (loopStarts s)\<rparr>)"
    using assms by (simp add: hoverInv_def playing_def)
  then have "hoverInv (animate f (s\<lparr>loadingOverlayHidden := True, sceneReady := True,
                    loopStarts := Suc (loopStarts s)\<rparr>))"
    by (rule animate_hoverInv)
  moreover have "hoverInv (s\<lparr>sceneReady := True, loadingOverlayHidden := False,
                    loadingProgressText := ''Error: Camera Failed'',
                    loadingProgressDisplay := ''block'', audioUnlockButtonDisplay := ''none''\<rparr>)"
    using assms by (simp add: hoverInv_def playing_def)
  ultimately show ?thesis using assms by (simp add: startExperience_def Let_def)
qed

lemma startExperience_p000_hoverInv:
  assumes "hoverInv s"
  shows "hoverInv (startExperience_p000 f s)"
proof -
  have "hoverInv (s\<lparr>loadingOverlayHidden := True, sceneReady := True,
                    loopStarts := Suc (loopStarts s)\<rparr>)"
    using assms by (simp add: hoverInv_def playing_def)
  then have "hoverInv (animate_p000 f (s\<lparr>loadingOverlayHidden := True, sceneReady := True,
                    loopStarts := Suc (loopStarts s)\<rparr>))"
    by (rule animate_p000_hoverInv)
  moreover have "hoverInv (s\<lparr>loadingOverlayHidden := True, sceneReady := True,
                    alerts := alerts s @ [''Error: Could not initialize camera.'']\<rparr>)"
    using assms by (simp add: hoverInv_def playing_def)
  ultimately show ?thesis using assms by (simp add: startExperience_p000_def Let_def)
qed

lemma handle_hoverInv: "hoverInv s \<Longrightarrow> hoverInv (handle e s)"
  by (cases e; simp add: unlock_defs Let_def animate_hoverInv startExperience_hoverInv
        split: AudioContextState.splits)

lemma handle_p000_hoverInv: "hoverInv s \<Longrightarrow> hoverInv (handle_p000 e s)"
  by (cases e; simp add: unlock_defs Let_def animate_p000_hoverInv startExperience_p000_hoverInv
        split: AudioContextState.splits)

lemma run_hoverInv: "hoverInv s \<Longrightarrow> hoverInv (run es s)"
  by (induction es arbitrary: s) (simp_all add: handle_hoverInv)

lemma run_p000_hoverInv: "hoverInv s \<Longrightarrow> hoverInv (run_p000 es s)"
  by (induction es arbitrary: s) (simp_all add: handle_p000_hoverInv)

lemma hoverInv_at_most_one: "hoverInv s \<Longrightarrow> playing s a \<Longrightarrow> playing s b \<Longrightarrow> a = b"
  by (metis hoverInv_def option.inject)

lemma hoverInv_all_paused:
  "\<forall>n. \<not> playing s n \<Longrightarrow> hoverInv s"
  by (simp add: hoverInv_def)

lemma registerVideo_hoverInv: "hoverInv s \<Longrightarrow> hoverInv (registerVideo n path s)"
  by (auto simp add: hoverInv_def registerVideo_def playing_def split: if_splits)

text \<open>
  Claim C4. If every playing video is the hovered one before a frame, the same holds after
  its playback step and after the whole frame. So in every run that starts with all videos
  paused (the state after loading), at most one video is playing after every event, in
  particular at the end of every frame; this holds for the older variant too. When the
  pointer leaves the hovered surface, for another surface or for none, the playback step
  pauses the video that was hovered.
\<close>

theorem hover_exclusive:
  "(hoverInv s \<longrightarrow> hoverInv (controlVideoPlayback f s) \<and> hoverInv (animate f s)) \<and>
   ((\<forall>n. \<not> playing s n) \<longrightarrow>
      (\<forall>k a b. playing (run (take k es) s) a \<and> playing (run (take k es) s) b \<longrightarrow> a = b) \<and>
      (\<forall>k a b. playing (run_p000 (take k es) s) a \<and> playing (run_p000 (take k es) s) b
          \<longrightarrow> a = b)) \<and>
   (currentlyHoveredVideo s = Some m \<and> intersected f s \<noteq> Some m \<longrightarrow>
      \<not> playing (controlVideoPlayback f s) m)"
proof (intro conjI impI allI)
  assume "hoverInv s"
  then show "hoverInv (controlVideoPlayback f s)" "hoverInv (animate f s)"
    by (simp_all add: controlVideoPlayback_hoverInv animate_hoverInv)
next
  fix k a b
  assume "\<forall>n. \<not> playing s n"
  then have "hoverInv s" by (rule hoverInv_all_paused)
  then have "hoverInv (run (take k es) s)" by (rule run_hoverInv)
  moreover assume "playing (run (take k es) s) a \<and> playing (run (take k es) s) b"
  ultimately show "a = b" using hoverInv_at_most_one by blast
next
  fix k a b
  assume "\<forall>n. \<not> playing s n"
  then have "hoverInv s" by (rule hoverInv_all_paused)
  then have "hoverInv (run_p000 (take k es) s)" by (rule run_p000_hoverInv)
  moreover assume "playing (run_p000 (take k es) s) a \<and> playing (run_p000 (take k es) s) b"
  ultimately show "a = b" using hoverInv_at_most_one by blast
next
  assume "currentlyHoveredVideo s = Some m \<and> intersected f s \<noteq> Some m"
  then show "\<not> playing (controlVideoPlayback f s) m"
    by (simp add: controlVideoPlayback_pauses_previous)
qed

theorem hover_exclusive_witness:
  "(\<forall>n. \<not> playing exampleVideos n) \<and> hoverInv exampleVideos \<and>
   playing (run [AnimationFrame exampleHover] exampleVideos) ''lunaMoth_webm'' \<and>
   currentlyHoveredVideo (run [AnimationFrame exampleHover] exampleVideos) = Some ''lunaMoth_webm'' \<and>
   intersected exampleHoverTiger (run [AnimationFrame exampleHover] exampleVideos)
     \<noteq> Some ''lunaMoth_webm'' \<and>
   \<not> playing (run [AnimationFrame exampleHover, AnimationFrame exampleHoverTiger] exampleVideos)
        ''lunaMoth_webm'' \<and>
   playing (run [AnimationFrame exampleHover, AnimationFrame exampleHoverTiger] exampleVideos)
        ''tigerButterfly_webm'' \<and>
   hoverInv (animate exampleHoverTiger (run [AnimationFrame exampleHover] exampleVideos)) \<and>
   \<not> playing (controlVideoPlayback exampleHoverTiger
                 (run [AnimationFrame exampleHover] exampleVideos)) ''lunaMoth_webm''"
proof -
  let ?es = "[AnimationFrame exampleHover, AnimationFrame exampleHoverTiger]"
  let ?s1 = "run [AnimationFrame exampleHover] exampleVideos"
  have p: "\<forall>n. \<not> playing exampleVideos n"
    by (simp add: playing_def exampleVideos_def registerVideo_def exampleReady_def)
  have v1: "playing ?s1 ''lunaMoth_webm''" "currentlyHoveredVideo ?s1 = Some ''lunaMoth_webm''"
    "intersected exampleHoverTiger ?s1 \<noteq> Some ''lunaMoth_webm''"
    by (simp_all add: playing_def exampleVideos_def registerVideo_def exampleReady_def
        exampleHover_def exampleHoverTiger_def exampleFrame_def video_play_def video_pause_def
        model_defs constants)
  have v2: "\<not> playing (run ?es exampleVideos) ''lunaMoth_webm''"
    "playing (run ?es exampleVideos) ''tigerButterfly_webm''"
    by (simp_all add: playing_def exampleVideos_def registerVideo_def exampleReady_def
        exampleHover_def exampleHoverTiger_def exampleFrame_def video_play_def video_pause_def
        model_defs constants)
  have i0: "hoverInv exampleVideos" using p by (rule hoverInv_all_paused)
  have i1: "hoverInv ?s1" using i0 by (rule run_hoverInv)
  from hover_exclusive [where s = ?s1 and f = exampleHoverTiger and m = "''lunaMoth_webm''"] i1 v1
  have "hoverInv (animate exampleHoverTiger ?s1)"
    and "\<not> playing (controlVideoPlayback exampleHoverTiger ?s1) ''lunaMoth_webm''"
    by blast+
  with p i0 v1 v2 show ?thesis by blast
qed

lemma controlVideoPlayback_new_surface:
  assumes "intersected f s = Some n" "currentlyHoveredVideo s \<noteq> Some n" "videoElements s n = Some v"
  shows "playRequests (controlVideoPlayback f s) =
           (if audioContextResumed s \<or> muted v then playRequests s @ [n] else playRequests s)"
    and "currentlyHoveredVideo (controlVideoPlayback f s) = Some n"
    and "\<not> (audioContextResumed s \<or> muted v) \<Longrightarrow> videoElements (controlVideoPlayback f s) n = Some v"
    and "videoElements (controlVideoPlayback f s) n \<noteq> None"
  using assms
  by (cases "currentlyHoveredVideo s";
      simp add: controlVideoPlayback_def pauseVideo_def playVideo_def Let_def)+

lemma controlVideoPlayback_same_surface:
  "intersected f s = Some n \<Longrightarrow> currentlyHoveredVideo s = Some n \<Longrightarrow> controlVideoPlayback f s = s"
  by (simp add: controlVideoPlayback_def)

lemma intersected_hit:
  "hit f = Some n \<Longrightarrow> videoElements s n \<noteq> None \<Longrightarrow> intersected f s = Some n"
  by (auto simp add: intersected_def)

lemma animate_same_surface:
  assumes "sceneReady s" "isCameraLoaded s" "hit f = Some n" "videoElements s n \<noteq> None"
    "currentlyHoveredVideo s = Some n"
  shows "playRequests (animate f s) = playRequests s"
    and "videoElements (animate f s) = videoElements s"
    and "currentlyHoveredVideo (animate f s) = Some n"
  using assms controlVideoPlayback_same_surface [of f s n]
  by (simp_all add: animate_hover intersected_hit)

text \<open>
  Claim C6. In a frame on a ready scene whose pointer ray hits a surface \<open>n\<close> other than the
  hovered one, \<^verbatim>\<open>play()\<close> is called on the video of \<open>n\<close> exactly when the audio context has
  been resumed or the video is muted; otherwise the video is left as it was. In both cases
  \<open>n\<close> becomes the hovered surface, so a following frame over the same surface calls
  \<^verbatim>\<open>play()\<close> no more and changes no video, also when the audio context has been resumed in
  between.
\<close>

theorem hover_play_gate:
  "sceneReady s \<and> isCameraLoaded s \<and> hit f = Some n \<and> videoElements s n = Some v \<and>
   currentlyHoveredVideo s \<noteq> Some n \<longrightarrow>
     playRequests (animate f s) =
       (if audioContextResumed s \<or> muted v then playRequests s @ [n] else playRequests s) \<and>
     (\<not> (audioContextResumed s \<or> muted v) \<longrightarrow> videoElements (animate f s) n = Some v) \<and>
     currentlyHoveredVideo (animate f s) = Some n \<and>
     (hit f' = Some n \<longrightarrow>
        playRequests (animate f' (animate f s)) = playRequests (animate f s) \<and>
        videoElements (animate f' (animate f s)) = videoElements (animate f s) \<and>
        currentlyHoveredVideo (animate f' (animate f s)) = Some n \<and>
        playRequests (animate f' ((animate f s)\<lparr>audioContextResumed := True\<rparr>)) =
          playRequests (animate f s))"
proof (intro impI)
  assume a: "sceneReady s \<and> isCameraLoaded s \<and> hit f = Some n \<and> videoElements s n = Some v \<and>
   currentlyHoveredVideo s \<noteq> Some n"
  then have i: "intersected f s = Some n" by (simp add: intersected_hit)
  note new = controlVideoPlayback_new_surface [OF i, of v]
  have r: "sceneReady (animate f s)" "isCameraLoaded (animate f s)" using a by simp_all
  have h: "currentlyHoveredVideo (animate f s) = Some n"
    using a new(2) by (simp add: animate_hover)
  have e: "videoElements (animate f s) n \<noteq> None"
    using a new(4) by (simp add: animate_hover)
  have p: "playRequests (animate f s) =
       (if audioContextResumed s \<or> muted v then playRequests s @ [n] else playRequests s)"
    using a new(1) by (simp add: animate_hover)
  have l: "\<not> (audioContextResumed s \<or> muted v) \<longrightarrow> videoElements (animate f s) n = Some v"
    using a new(3) by (simp add: animate_hover)
  have again: "hit f' = Some n \<longrightarrow>
        playRequests (animate f' (animate f s)) = playRequests (animate f s) \<and>
        videoElements (animate f' (animate f s)) = videoElements (animate f s) \<and>
        currentlyHoveredVideo (animate f' (animate f s)) = Some n \<and>
        playRequests (animate f' ((animate f s)\<lparr>audioContextResumed := True\<rparr>)) =
          playRequests (animate f s)"
  proof
    assume f': "hit f' = Some n"
    from animate_same_surface [OF r f' e h]
      animate_same_surface(1) [of "(animate f s)\<lparr>audioContextResumed := True\<rparr>" f' n]
      r f' e h
    show "playRequests (animate f' (animate f s)) = playRequests (animate f s) \<and>
        videoElements (animate f' (animate f s)) = videoElements (animate f s) \<and>
        currentlyHoveredVideo (animate f' (animate f s)) = Some n \<and>
        playRequests (animate f' ((animate f s)\<lparr>audioContextResumed := True\<rparr>)) =
          playRequests (animate f s)"
      by simp
  qed
  from p l h again show "playRequests (animate f s) =
       (if audioContextResumed s \<or> muted v then playRequests s @ [n] else playRequests s) \<and>
     (\<not> (audioContextResumed s \<or> muted v) \<longrightarrow> videoElements (animate f s) n = Some v) \<and>
     currentlyHoveredVideo (animate f s) = Some n \<and>
     (hit f' = Some n \<longrightarrow>
        playRequests (animate f' (animate f s)) = playRequests (animate f s) \<and>
        videoElements (animate f' (animate f s)) = videoElements (animate f s) \<and>
        currentlyHoveredVideo (animate f' (animate f s)) = Some n \<and>
        playRequests (animate f' ((animate f s)\<lparr>audioContextResumed := True\<rparr>)) =
          playRequests (animate f s))"
    by blast
qed

theorem hover_play_gate_witness:
  "sceneReady exampleLocked \<and> isCameraLoaded exampleLocked \<and>
   hit exampleHover = Some ''lunaMoth_webm'' \<and>
   videoElements exampleLocked ''lunaMoth_webm''
     = Some \<lparr>paused = True, muted = False, src = Some ''assets/Luna_Moth.webm''\<rparr> \<and>
   currentlyHoveredVideo exampleLocked \<noteq> Some ''lunaMoth_webm'' \<and>
   playRequests (animate exampleHover exampleLocked) = [] \<and>
   currentlyHoveredVideo (animate exampleHover exampleLocked) = Some ''lunaMoth_webm'' \<and>
   playRequests (animate exampleHover
      ((animate exampleHover exampleLocked)\<lparr>audioContextResumed := True\<rparr>)) = [] \<and>
   sceneReady exampleVideos \<and> isCameraLoaded exampleVideos \<and>
   videoElements exampleVideos ''lunaMoth_webm''
     = Some \<lparr>paused = True, muted = True, src = Some ''assets/Luna_Moth.webm''\<rparr> \<and>
   currentlyHoveredVideo exampleVideos \<noteq> Some ''lunaMoth_webm'' \<and>
   playRequests (animate exampleHover exampleVideos) = [''lunaMoth_webm'']"
proof -
  have a: "sceneReady exampleLocked" "isCameraLoaded exampleLocked"
    "hit exampleHover = Some ''lunaMoth_webm''"
    "videoElements exampleLocked ''lunaMoth_webm''
       = Some \<lparr>paused = True, muted = False, src = Some ''assets/Luna_Moth.webm''\<rparr>"
    "currentlyHoveredVideo exampleLocked \<noteq> Some ''lunaMoth_webm''"
    "\<not> audioContextResumed exampleLocked" "playRequests exampleLocked = []"
    by (simp_all add: exampleLocked_def exampleReady_def exampleHover_def exampleFrame_def)
  have b: "sceneReady exampleVideos" "isCameraLoaded exampleVideos"
    "videoElements exampleVideos ''lunaMoth_webm''
       = Some \<lparr>paused = True, muted = True, src = Some ''assets/Luna_Moth.webm''\<rparr>"
    "currentlyHoveredVideo exampleVideos \<noteq> Some ''lunaMoth_webm''"
    "playRequests exampleVideos = []"
    by (simp_all add: exampleVideos_def registerVideo_def exampleReady_def)
  from hover_play_gate [where s = exampleLocked and f = exampleHover and f' = exampleHover
      and n = "''lunaMoth_webm''"
      and v = "\<lparr>paused = True, muted = False, src = Some ''assets/Luna_Moth.webm''\<rparr>"] a
  have "playRequests (animate exampleHover exampleLocked) = []"
    and "currentlyHoveredVideo (animate exampleHover exampleLocked) = Some ''lunaMoth_webm''"
    and "playRequests (animate exampleHover
      ((animate exampleHover exampleLocked)\<lparr>audioContextResumed := True\<rparr>)) = []"
    by simp_all
  moreover
  from hover_play_gate [where s = exampleVideos and f = exampleHover and f' = exampleHover
      and n = "''lunaMoth_webm''"
      and v = "\<lparr>paused = True, muted = True, src = Some ''assets/Luna_Moth.webm''\<rparr>"] a(3) b
  have "playRequests (animate exampleHover exampleVideos) = [''lunaMoth_webm'']"
    by simp
  ultimately show ?thesis using a b by blast
qed

section \<open>Info panel\<close>

lemma panelPosition_p000_eq: "panelPosition_p000 = panelPosition"
  by (auto simp add: fun_eq_iff panelPosition_p000_def panelPosition_def Let_def max_def)

lemma panelPosition_nonneg:
  "0 \<le> fst (panelPosition mx my pw ph iw ih) \<and> 0 \<le> snd (panelPosition mx my pw ph iw ih)"
  by (simp add: panelPosition_def Let_def)

lemma panelPosition_right_edge:
  "pw \<le> iw \<Longrightarrow> mx \<le> iw + 15 \<Longrightarrow> fst (panelPosition mx my pw ph iw ih) + pw \<le> iw"
  by (simp add: panelPosition_def Let_def constants max_def)

lemma panelPosition_bottom_edge:
  "ph \<le> ih \<Longrightarrow> my + 15 \<le> ih \<Longrightarrow> snd (panelPosition mx my pw ph iw ih) + ph \<le> ih"
  by (simp add: panelPosition_def Let_def constants max_def)

text \<open>
  Claim C9 at a window of 800 by 600 pixels, a panel of 200 by 50 pixels and the pointer at
  \<open>(400, 595)\<close>. The unflipped position \<open>y = 580\<close> overflows the bottom edge, the flipped one
  is \<open>595 - 50 + 15 = 560\<close>, and the panel then ends at \<open>y = 610\<close>, ten pixels below the
  window. The lemmas above show what does hold: no coordinate is negative, the right edge
  is kept by a panel that fits the window while the pointer is not more than the offset
  right of it, and the bottom edge is kept only while the pointer stays at least the offset
  above it.
\<close>

theorem info_panel_overflows_bottom:
  "panelPosition 400 595 200 50 800 600 = (415, 560) \<and>
   panelPosition_p000 400 595 200 50 800 600 = (415, 560) \<and>
   600 < snd (panelPosition 400 595 200 50 800 600) + 50 \<and>
   infoPanelTop (controlInfoPanel exampleFrame (Some ''lunaMoth_webm'')
                   (onMouseMove 400 595 exampleReady)) = 560 \<and>
   infoPanelDisplay (controlInfoPanel exampleFrame (Some ''lunaMoth_webm'')
                   (onMouseMove 400 595 exampleReady)) = ''block''"
  by (simp add: panelPosition_def panelPosition_p000_def controlInfoPanel_def onMouseMove_def
      exampleFrame_def exampleReady_def Let_def constants)

section \<open>Disposal\<close>

lemmas media_defs =
  updateCanvasTexture_def cancelAnimationFrame_def createCanvasVideoTexture_def
  canvasTextureReady_def samplingTick_def disposeClosure_def disposeTexture_def
  releaseVideo_def video_load_def video_removeSrc_def video_pause_def video_play_def

lemma releaseVideo_eq: "releaseVideo v = v\<lparr>paused := True, src := None\<rparr>"
  by (simp add: releaseVideo_def video_load_def video_removeSrc_def video_pause_def)

lemma releaseVideo_idem [simp]: "releaseVideo (releaseVideo v) = releaseVideo v"
  by (simp add: releaseVideo_eq)

lemma disposeTexture_idem [simp]: "disposeTexture (disposeTexture t) = disposeTexture t"
  by (simp add: disposeTexture_def)

lemma disposeTexture_mapped [simp]: "mapped (disposeTexture t) = mapped t"
  by (simp add: disposeTexture_def)

lemma disposeClosure_idem [simp]: "disposeClosure (disposeClosure a) = disposeClosure a"
  by (simp add: disposeClosure_def cancelAnimationFrame_def split: option.splits)

lemma disposeClosure_halts:
  "adapterInv a \<Longrightarrow> disposeClosure a = \<lparr>animationFrameId = None, samplingPending = None\<rparr>"
  by (cases a) (auto simp add: adapterInv_def disposeClosure_def cancelAnimationFrame_def
        split: option.splits)

lemma updateCanvasTexture_adapterInv: "0 < j \<Longrightarrow> adapterInv (updateCanvasTexture j a)"
  by (simp add: adapterInv_def updateCanvasTexture_def)

lemma canvasVideoError_adapterInv: "adapterInv a \<Longrightarrow> adapterInv (canvasVideoError a)"
  by (auto simp add: adapterInv_def canvasVideoError_def cancelAnimationFrame_def
        split: option.splits)

lemma dispose_idem: "dispose n (dispose n s) = dispose n s"
  by (cases "canvasTextureObjects s n"; cases "videoElements s n"; cases "textures s n")
     (simp_all add: dispose_def)

lemma map_option_idem:
  "(\<And>x. g (g x) = g x) \<Longrightarrow> map_option g (map_option g y) = map_option g y"
  by (cases y) simp_all

lemma disposeAll_idem: "disposeAll (disposeAll s) = disposeAll s"
  by (cases s) (auto simp add: disposeAll_def fun_eq_iff map_option_idem)

lemma disposeAll_at:
  "canvasTextureObjects (disposeAll s) n = map_option disposeClosure (canvasTextureObjects s n)"
  "videoElements (disposeAll s) n =
     (if canvasTextureObjects s n = None then videoElements s n
      else map_option releaseVideo (videoElements s n))"
  "textures (disposeAll s) n =
     (if canvasTextureObjects s n = None then textures s n
      else map_option disposeTexture (textures s n))"
  "pendingCanvasVideos (disposeAll s) = pendingCanvasVideos s"
  "canvasTextureObjects (dispose n s) n = map_option disposeClosure (canvasTextureObjects s n)"
  "videoElements (dispose n s) n =
     (if canvasTextureObjects s n = None then videoElements s n
      else map_option releaseVideo (videoElements s n))"
  "textures (dispose n s) n =
     (if canvasTextureObjects s n = None then textures s n
      else map_option disposeTexture (textures s n))"
  "pendingCanvasVideos (dispose n s) = pendingCanvasVideos s"
  by (simp_all add: disposeAll_def dispose_def split: option.splits)

lemma disposeSceneMaps_at:
  "textures (disposeSceneMaps s) n
     = map_option (\<lambda>t. if mapped t then disposeTexture t else t) (textures s n)"
  "canvasTextureObjects (disposeSceneMaps s) = canvasTextureObjects s"
  "videoElements (disposeSceneMaps s) = videoElements s"
  "pendingCanvasVideos (disposeSceneMaps s) = pendingCanvasVideos s"
  "sceneReady (disposeSceneMaps s) = sceneReady s"
  "backgroundSound (disposeSceneMaps s) = backgroundSound s"
  by (simp_all add: disposeSceneMaps_def)

lemma beforeunload_effect:
  "\<not> sceneReady (beforeunload s)"
  "videoElements (beforeunload s) n = map_option releaseVideo (videoElements s n)"
  "textures (beforeunload s) n
     = map_option (\<lambda>t. if mapped t \<or> canvasTextureObjects s n \<noteq> None then disposeTexture t else t)
         (textures s n)"
  "canvasTextureObjects (beforeunload s) n = map_option disposeClosure (canvasTextureObjects s n)"
  "pendingCanvasVideos (beforeunload s) = pendingCanvasVideos s"
  by (cases "textures s n"; cases "videoElements s n";
      simp add: beforeunload_def disposeAll_def disposeSceneMaps_def Let_def map_option_idem)+

lemma beforeunload_idem: "beforeunload (beforeunload s) = beforeunload s"
  by (cases s)
     (auto simp add: beforeunload_def disposeAll_def disposeSceneMaps_def Let_def fun_eq_iff
        map_option_case split: option.splits)

lemma animate_after_beforeunload: "animate f (beforeunload s) = beforeunload s"
  by (simp add: animate_def beforeunload_effect)

lemma samplingTick_halted:
  "canvasTextureObjects s n = Some \<lparr>animationFrameId = None, samplingPending = None\<rparr> \<Longrightarrow>
   samplingTick n j s = s"
  by (simp add: samplingTick_def)

text \<open>
  A video element that \<^verbatim>\<open>createCanvasVideoTexture\<close> has created is stored in
  \<^verbatim>\<open>videoElements\<close> and \<^verbatim>\<open>canvasTextureObjects\<close> only by its \<^verbatim>\<open>loadedmetadata\<close> listener.
  Until that event the teardown reaches neither the element nor its texture: the element
  keeps its source and the texture is not disposed.
\<close>

lemma pending_canvas_video_not_released:
  "pendingCanvasVideos (beforeunload s) = pendingCanvasVideos s"
  "textures s n = Some t \<Longrightarrow> \<not> mapped t \<Longrightarrow> canvasTextureObjects s n = None \<Longrightarrow>
   textures (beforeunload s) n = Some t"
  by (simp_all add: beforeunload_effect)

lemma exampleCreated_not_released:
  "videoElements exampleCreated ''lunaMoth_webm'' = None \<and>
   canvasTextureObjects exampleCreated ''lunaMoth_webm'' = None \<and>
   pendingCanvasVideos (beforeunload exampleCreated) ''lunaMoth_webm''
     = Some \<lparr>paused = True, muted = True, src = Some ''assets/Luna_Moth_H.265.mov''\<rparr> \<and>
   textures (beforeunload exampleCreated) ''lunaMoth_webm''
     = Some \<lparr>mapped = False, disposed = False\<rparr>"
  by (simp add: beforeunload_effect exampleCreated_def createCanvasVideoTexture_def
      exampleReady_def)

text \<open>
  Claim C7, as amended. \<^verbatim>\<open>dispose()\<close> of a canvas texture object is idempotent. On a
  registered object whose pending sampling callback is the one its closure remembers, it
  cancels that callback, so that no further sampling runs, pauses the video and removes
  its source, and disposes the canvas texture. The \<^verbatim>\<open>beforeunload\<close> listener is idempotent
  too: it pauses and removes the source of every video element stored in
  \<^verbatim>\<open>videoElements\<close>, disposes every video texture that is the map of a material in the scene,
  and halts the sampling of every object stored in \<^verbatim>\<open>canvasTextureObjects\<close>; it clears
  \<open>sceneReady\<close> first, so a frame that arrives afterwards does nothing and calls neither
  \<^verbatim>\<open>play()\<close> nor \<^verbatim>\<open>pause()\<close>. The condition on the object is kept by the code: a
  sampling request with a positive identifier establishes it and the \<^verbatim>\<open>error\<close> listener
  preserves it.
\<close>

theorem canvas_dispose_amended:
  "dispose n (dispose n s) = dispose n s \<and>
   (canvasTextureObjects s n = Some a \<and> adapterInv a \<and> videoElements s n = Some v \<and>
    textures s n = Some t \<longrightarrow>
      canvasTextureObjects (dispose n s) n
        = Some \<lparr>animationFrameId = None, samplingPending = None\<rparr> \<and>
      samplingTick n j (dispose n s) = dispose n s \<and>
      videoElements (dispose n s) n = Some (v\<lparr>paused := True, src := None\<rparr>) \<and>
      textures (dispose n s) n = Some (t\<lparr>disposed := True\<rparr>)) \<and>
   beforeunload (beforeunload s) = beforeunload s \<and>
   (videoElements s n = Some v \<longrightarrow>
      videoElements (beforeunload s) n = Some (v\<lparr>paused := True, src := None\<rparr>)) \<and>
   (textures s n = Some t \<and> mapped t \<longrightarrow>
      textures (beforeunload s) n = Some (t\<lparr>disposed := True\<rparr>)) \<and>
   (canvasTextureObjects s n = Some a \<and> adapterInv a \<longrightarrow>
      canvasTextureObjects (beforeunload s) n
        = Some \<lparr>animationFrameId = None, samplingPending = None\<rparr>) \<and>
   (0 < j \<longrightarrow> adapterInv (updateCanvasTexture j a)) \<and>
   (adapterInv a \<longrightarrow> adapterInv (canvasVideoError a)) \<and>
   \<not> sceneReady (beforeunload s) \<and>
   animate f (beforeunload s) = beforeunload s"
proof -
  have "canvasTextureObjects (dispose n s) n
        = Some \<lparr>animationFrameId = None, samplingPending = None\<rparr> \<and>
      samplingTick n j (dispose n s) = dispose n s \<and>
      videoElements (dispose n s) n = Some (v\<lparr>paused := True, src := None\<rparr>) \<and>
      textures (dispose n s) n = Some (t\<lparr>disposed := True\<rparr>)"
    if "canvasTextureObjects s n = Some a" "adapterInv a" "videoElements s n = Some v"
      "textures s n = Some t"
  proof -
    have c: "canvasTextureObjects (dispose n s) n
        = Some \<lparr>animationFrameId = None, samplingPending = None\<rparr>"
      using that by (simp add: disposeAll_at disposeClosure_halts)
    then have "samplingTick n j (dispose n s) = dispose n s" by (rule samplingTick_halted)
    with c that show ?thesis by (simp add: disposeAll_at releaseVideo_eq disposeTexture_def)
  qed
  then show ?thesis
    by (simp add: dispose_idem beforeunload_idem beforeunload_effect releaseVideo_eq
        animate_after_beforeunload disposeTexture_def disposeClosure_halts
        updateCanvasTexture_adapterInv canvasVideoError_adapterInv)
qed

theorem canvas_dispose_amended_witness:
  "canvasTextureObjects exampleCanvas ''lunaMoth_webm''
     = Some \<lparr>animationFrameId = Some 7, samplingPending = Some 7\<rparr> \<and>
   adapterInv \<lparr>animationFrameId = Some 7, samplingPending = Some 7\<rparr> \<and>
   videoElements exampleCanvas ''lunaMoth_webm''
     = Some \<lparr>paused = True, muted = True, src = Some ''assets/Luna_Moth_H.265.mov''\<rparr> \<and>
   textures exampleCanvas ''lunaMoth_webm'' = Some \<lparr>mapped = True, disposed = False\<rparr> \<and>
   canvasTextureObjects (dispose ''lunaMoth_webm'' exampleCanvas) ''lunaMoth_webm''
     = Some \<lparr>animationFrameId = None, samplingPending = None\<rparr> \<and>
   samplingTick ''lunaMoth_webm'' 8 (dispose ''lunaMoth_webm'' exampleCanvas)
     = dispose ''lunaMoth_webm'' exampleCanvas \<and>
   videoElements (dispose ''lunaMoth_webm'' exampleCanvas) ''lunaMoth_webm''
     = Some \<lparr>paused = True, muted = True, src = None\<rparr> \<and>
   textures (dispose ''lunaMoth_webm'' exampleCanvas) ''lunaMoth_webm''
     = Some \<lparr>mapped = True, disposed = True\<rparr> \<and>
   videoElements (beforeunload exampleCanvas) ''lunaMoth_webm''
     = Some \<lparr>paused = True, muted = True, src = None\<rparr> \<and>
   textures (beforeunload exampleCanvas) ''lunaMoth_webm''
     = Some \<lparr>mapped = True, disposed = True\<rparr> \<and>
   canvasTextureObjects (beforeunload exampleCanvas) ''lunaMoth_webm''
     = Some \<lparr>animationFrameId = None, samplingPending = None\<rparr> \<and>
   samplingPending (updateCanvasTexture 8 \<lparr>animationFrameId = Some 7, samplingPending = Some 7\<rparr>)
     = Some 8 \<and>
   videoElements exampleDirect ''lunaMoth_webm''
     = Some \<lparr>paused = True, muted = True, src = Some ''assets/Luna_Moth.webm''\<rparr> \<and>
   textures exampleDirect ''lunaMoth_webm'' = Some \<lparr>mapped = True, disposed = False\<rparr> \<and>
   videoElements (beforeunload exampleDirect) ''lunaMoth_webm''
     = Some \<lparr>paused = True, muted = True, src = None\<rparr> \<and>
   textures (beforeunload exampleDirect) ''lunaMoth_webm''
     = Some \<lparr>mapped = True, disposed = True\<rparr>"
proof -
  have a: "canvasTextureObjects exampleCanvas ''lunaMoth_webm''
     = Some \<lparr>animationFrameId = Some 7, samplingPending = Some 7\<rparr>"
    "adapterInv \<lparr>animationFrameId = Some 7, samplingPending = Some 7\<rparr>"
    "videoElements exampleCanvas ''lunaMoth_webm''
     = Some \<lparr>paused = True, muted = True, src = Some ''assets/Luna_Moth_H.265.mov''\<rparr>"
    "textures exampleCanvas ''lunaMoth_webm'' = Some \<lparr>mapped = True, disposed = False\<rparr>"
    by (simp_all add: exampleCanvas_def exampleCreated_def createCanvasVideoTexture_def
        canvasTextureReady_def updateCanvasTexture_def adapterInv_def video_pause_def
        video_play_def)
  have u: "samplingPending
      (updateCanvasTexture 8 \<lparr>animationFrameId = Some 7, samplingPending = Some 7\<rparr>) = Some 8"
    by (simp add: updateCanvasTexture_def)
  from canvas_dispose_amended [where s = exampleCanvas and n = "''lunaMoth_webm''" and j = 8
      and a = "\<lparr>animationFrameId = Some 7, samplingPending = Some 7\<rparr>"
      and v = "\<lparr>paused = True, muted = True, src = Some ''assets/Luna_Moth_H.265.mov''\<rparr>"
      and t = "\<lparr>mapped = True, disposed = False\<rparr>"] a u
  have c: "canvasTextureObjects (dispose ''lunaMoth_webm'' exampleCanvas) ''lunaMoth_webm''
     = Some \<lparr>animationFrameId = None, samplingPending = None\<rparr> \<and>
   samplingTick ''lunaMoth_webm'' 8 (dispose ''lunaMoth_webm'' exampleCanvas)
     = dispose ''lunaMoth_webm'' exampleCanvas \<and>
   videoElements (dispose ''lunaMoth_webm'' exampleCanvas) ''lunaMoth_webm''
     = Some \<lparr>paused = True, muted = True, src = None\<rparr> \<and>
   textures (dispose ''lunaMoth_webm'' exampleCanvas) ''lunaMoth_webm''
     = Some \<lparr>mapped = True, disposed = True\<rparr> \<and>
   videoElements (beforeunload exampleCanvas) ''lunaMoth_webm''
     = Some \<lparr>paused = True, muted = True, src = None\<rparr> \<and>
   textures (beforeunload exampleCanvas) ''lunaMoth_webm''
     = Some \<lparr>mapped = True, disposed = True\<rparr> \<and>
   canvasTextureObjects (beforeunload exampleCanvas) ''lunaMoth_webm''
     = Some \<lparr>animationFrameId = None, samplingPending = None\<rparr>"
    by simp
  have b: "videoElements exampleDirect ''lunaMoth_webm''
     = Some \<lparr>paused = True, muted = True, src = Some ''assets/Luna_Moth.webm''\<rparr>"
    "textures exampleDirect ''lunaMoth_webm'' = Some \<lparr>mapped = True, disposed = False\<rparr>"
    by (simp_all add: exampleDirect_def registerVideo_def)
  from canvas_dispose_amended [where s = exampleDirect and n = "''lunaMoth_webm''"
      and v = "\<lparr>paused = True, muted = True, src = Some ''assets/Luna_Moth.webm''\<rparr>"
      and t = "\<lparr>mapped = True, disposed = False\<rparr>"] b
  have d: "videoElements (beforeunload exampleDirect) ''lunaMoth_webm''
     = Some \<lparr>paused = True, muted = True, src = None\<rparr> \<and>
   textures (beforeunload exampleDirect) ''lunaMoth_webm''
     = Some \<lparr>mapped = True, disposed = True\<rparr>"
    by simp
  from a u b c d show ?thesis by blast
qed

text \<open>
  The claim as stated fails for a surface with a direct video texture: it has no object
  with a \<^verbatim>\<open>dispose()\<close> method, and after every \<^verbatim>\<open>dispose()\<close> there is has run, its video
  still has its source and its texture is not disposed. Nor does \<^verbatim>\<open>dispose()\<close> disable
  \<^verbatim>\<open>play()\<close>: a playback step over a disposed canvas surface calls it on the released
  element and clears its \<open>paused\<close> flag.
\<close>

theorem dispose_misses_direct_texture:
  "canvasTextureObjects exampleDirect ''lunaMoth_webm'' = None \<and>
   videoElements exampleDirect ''lunaMoth_webm''
     = Some \<lparr>paused = True, muted = True, src = Some ''assets/Luna_Moth.webm''\<rparr> \<and>
   videoElements (disposeAll exampleDirect) ''lunaMoth_webm''
     = Some \<lparr>paused = True, muted = True, src = Some ''assets/Luna_Moth.webm''\<rparr> \<and>
   textures (disposeAll exampleDirect) ''lunaMoth_webm''
     = Some \<lparr>mapped = True, disposed = False\<rparr> \<and>
   dispose ''lunaMoth_webm'' exampleDirect = exampleDirect \<and>
   playRequests (controlVideoPlayback exampleHover (dispose ''lunaMoth_webm'' exampleCanvas))
     = [''lunaMoth_webm''] \<and>
   videoElements (controlVideoPlayback exampleHover (dispose ''lunaMoth_webm'' exampleCanvas))
       ''lunaMoth_webm''
     = Some \<lparr>paused = False, muted = True, src = None\<rparr>"
  by (simp add: exampleDirect_def exampleCanvas_def exampleCreated_def registerVideo_def
      exampleReady_def exampleHover_def exampleFrame_def disposeAll_def dispose_def
      controlVideoPlayback_def intersected_def playVideo_def pauseVideo_def media_defs Let_def)

end
